theory Spec2Isabelle
  imports Complex_Main "HOL-Library.Sublist"
begin

section \<open>Python strings\<close>

text \<open>
  Source texts, oracle replies and program outputs are Python \<open>str\<close> values, sequences
  of code points. They are modelled as \<open>string\<close>, a \<open>char\<close> standing for a code point
  below 256 (the Latin-1 range), and the string methods used by
  \<open>programming_analyzer.py\<close> (\<open>str.strip\<close>, \<open>str.lower\<close>, \<open>str.isdigit\<close>, the pattern
  \<open>\d+\<close>, \<open>in\<close>, \<open>str.replace\<close>, \<open>str.startswith\<close>, \<open>str.endswith\<close>, \<open>str.join\<close>) have
  the meaning Python gives them on these code points. Code points from 256 on are not
  represented.
\<close>

text \<open>
  The code points for which \<open>str.isspace\<close> holds, which are those \<open>str.strip\<close> removes:
  the ASCII white space, the separators U+001C to U+001F, U+0085 and U+00A0.
\<close>

definition whitespace :: "char list" where
  "whitespace = [CHR 0x09, CHR 0x0A, CHR 0x0B, CHR 0x0C, CHR 0x0D,
                 CHR 0x1C, CHR 0x1D, CHR 0x1E, CHR 0x1F, CHR 0x20,
                 CHR 0x85, CHR 0xA0]"

definition isspace :: "char \<Rightarrow> bool" where
  "isspace c = (c \<in> set whitespace)"

definition strip :: "string \<Rightarrow> string" where
  "strip s = rev (dropWhile isspace (rev (dropWhile isspace s)))"

text \<open>
  The capital letters below 256 and their small letters: A to Z, and U+00C0 to U+00DE
  without the multiplication sign U+00D7.
\<close>

definition capital_letters :: "char list" where
  "capital_letters =
     ''ABCDEFGHIJKLMNOPQRSTUVWXYZ''
     @ [CHR 0xC0, CHR 0xC1, CHR 0xC2, CHR 0xC3, CHR 0xC4, CHR 0xC5, CHR 0xC6, CHR 0xC7,
        CHR 0xC8, CHR 0xC9, CHR 0xCA, CHR 0xCB, CHR 0xCC, CHR 0xCD, CHR 0xCE, CHR 0xCF,
        CHR 0xD0, CHR 0xD1, CHR 0xD2, CHR 0xD3, CHR 0xD4, CHR 0xD5, CHR 0xD6,
        CHR 0xD8, CHR 0xD9, CHR 0xDA, CHR 0xDB, CHR 0xDC, CHR 0xDD, CHR 0xDE]"

definition small_letters :: "char list" where
  "small_letters =
     ''abcdefghijklmnopqrstuvwxyz''
     @ [CHR 0xE0, CHR 0xE1, CHR 0xE2, CHR 0xE3, CHR 0xE4, CHR 0xE5, CHR 0xE6, CHR 0xE7,
        CHR 0xE8, CHR 0xE9, CHR 0xEA, CHR 0xEB, CHR 0xEC, CHR 0xED, CHR 0xEE, CHR 0xEF,
        CHR 0xF0, CHR 0xF1, CHR 0xF2, CHR 0xF3, CHR 0xF4, CHR 0xF5, CHR 0xF6,
        CHR 0xF8, CHR 0xF9, CHR 0xFA, CHR 0xFB, CHR 0xFC, CHR 0xFD, CHR 0xFE]"

definition lower_char :: "char \<Rightarrow> char" where
  "lower_char c =
     (case map_of (zip capital_letters small_letters) c of
        Some d \<Rightarrow> d
      | None \<Rightarrow> c)"

definition lower :: "string \<Rightarrow> string" where
  "lower s = map lower_char s"

text \<open>What \<open>\d\<close> matches: below 256, the decimal digits 0 to 9.\<close>

definition decimal_char :: "char \<Rightarrow> bool" where
  "decimal_char c = (c \<in> set ''0123456789'')"

text \<open>
  The code points for which \<open>str.isdigit\<close> holds: the decimal digits and the superscript
  digits U+00B2, U+00B3 and U+00B9, which \<open>\d\<close> does not match.
\<close>

definition digit_char :: "char \<Rightarrow> bool" where
  "digit_char c = (decimal_char c \<or> c \<in> set [CHR 0xB2, CHR 0xB3, CHR 0xB9])"

text \<open>\<open>s.isdigit()\<close>: non-empty and every character a digit.\<close>

definition isdigit :: "string \<Rightarrow> bool" where
  "isdigit s = (s \<noteq> [] \<and> list_all digit_char s)"

text \<open>
  \<open>re.search(r'\d+', s)\<close>: the leftmost maximal run of decimal digits, \<open>None\<close> when
  there is none.
\<close>

definition re_search_digits :: "string \<Rightarrow> string option" where
  "re_search_digits s =
     (case dropWhile (\<lambda>c. \<not> decimal_char c) s of
        [] \<Rightarrow> None
      | d # t \<Rightarrow> Some (takeWhile decimal_char (d # t)))"


text \<open>\<open>pat in s\<close>.\<close>

fun contains :: "string \<Rightarrow> string \<Rightarrow> bool" where
  "contains pat [] = (pat = [])"
| "contains pat (c # cs) = (prefix pat (c # cs) \<or> contains pat cs)"

definition startswith :: "string \<Rightarrow> string \<Rightarrow> bool" where
  "startswith s p = prefix p s"

definition endswith :: "string \<Rightarrow> string \<Rightarrow> bool" where
  "endswith s p = suffix p s"

text \<open>\<open>s.replace(old, new)\<close> for a non-empty \<open>old\<close> (every call site passes a literal).\<close>

fun replace :: "string \<Rightarrow> string \<Rightarrow> string \<Rightarrow> string" where
  "replace old new [] = []"
| "replace old new (c # cs) =
     (if old \<noteq> [] \<and> prefix old (c # cs)
      then new @ replace old new (drop (length old - 1) cs)
      else c # replace old new cs)"

text \<open>\<open>sep.join(xs)\<close>.\<close>

fun join :: "string \<Rightarrow> string list \<Rightarrow> string" where
  "join sep [] = []"
| "join sep [x] = x"
| "join sep (x # y # ys) = x @ sep @ join sep (y # ys)"

text \<open>Decimal rendering of a natural number, as an f-string renders a non-negative \<open>int\<close>.\<close>

fun str_nat :: "nat \<Rightarrow> string" where
  "str_nat n = (if n < 10 then [''0123456789'' ! n]
                else str_nat (n div 10) @ [''0123456789'' ! (n mod 10)])"

definition apostrophe :: string where
  "apostrophe = [CHR 0x27]"

definition newline :: string where
  "newline = [CHR 0x0A]"

section \<open>Python values and exceptions\<close>

text \<open>
  What \<open>json.loads\<close> returns is dynamically typed. \<open>JInt\<close> is a Python \<open>int\<close>, \<open>JNum\<close> a
  \<open>float\<close>. A \<open>float\<close> is taken to be finite and is kept as an exact rational: the
  rounding and the overflow of floating-point arithmetic are not modelled. An object is
  an association list whose keys are distinct, looked up with \<open>map_of\<close>.
\<close>

datatype json =
    JNull
  | JBool bool
  | JInt int
  | JNum rat
  | JStr string
  | JArray "json list"
  | JObject "(string \<times> json) list"

datatype exn =
    TypeError
  | KeyError
  | IndexError
  | AttributeError
  | ConnectionError
  | External string

text \<open>\<open>bool(v)\<close>, as used by \<open>if not v\<close>.\<close>

fun truthy :: "json \<Rightarrow> bool" where
  "truthy JNull = False"
| "truthy (JBool b) = b"
| "truthy (JInt n) = (n \<noteq> 0)"
| "truthy (JNum r) = (r \<noteq> 0)"
| "truthy (JStr s) = (s \<noteq> [])"
| "truthy (JArray xs) = (xs \<noteq> [])"
| "truthy (JObject kvs) = (kvs \<noteq> [])"

fun py_len :: "json \<Rightarrow> exn + nat" where
  "py_len (JStr s) = Inr (length s)"
| "py_len (JArray xs) = Inr (length xs)"
| "py_len (JObject kvs) = Inr (length kvs)"
| "py_len _ = Inl TypeError"

text \<open>\<open>v[i]\<close> for an index \<open>i \<ge> 0\<close>; an object decoded from JSON has no integer key.\<close>

fun py_getitem :: "json \<Rightarrow> nat \<Rightarrow> exn + json" where
  "py_getitem (JArray xs) i = (if i < length xs then Inr (xs ! i) else Inl IndexError)"
| "py_getitem (JStr s) i = (if i < length s then Inr (JStr [s ! i]) else Inl IndexError)"
| "py_getitem (JObject kvs) i = Inl KeyError"
| "py_getitem _ i = Inl TypeError"

text \<open>\<open>v[:50]\<close>.\<close>

fun py_slice50 :: "json \<Rightarrow> exn + json" where
  "py_slice50 (JStr s) = Inr (JStr (take 50 s))"
| "py_slice50 (JArray xs) = Inr (JArray (take 50 xs))"
| "py_slice50 _ = Inl TypeError"

text \<open>\<open>v.get(key, default)\<close>: only a \<open>dict\<close> has the method.\<close>

fun py_get :: "json \<Rightarrow> string \<Rightarrow> json \<Rightarrow> exn + json" where
  "py_get (JObject kvs) key dflt =
     Inr (case map_of kvs key of Some v \<Rightarrow> v | None \<Rightarrow> dflt)"
| "py_get _ key dflt = Inl AttributeError"

text \<open>The elements a \<open>for\<close> loop visits.\<close>

fun py_iter :: "json \<Rightarrow> exn + json list" where
  "py_iter (JArray xs) = Inr xs"
| "py_iter (JStr s) = Inr (map (\<lambda>c. JStr [c]) s)"
| "py_iter (JObject kvs) = Inr (map (\<lambda>kv. JStr (fst kv)) kvs)"
| "py_iter _ = Inl TypeError"

text \<open>
  An \<open>int\<close> is converted to \<open>float\<close> when it is added to one; from this magnitude on
  (half-way between the largest \<open>float\<close> and \<open>2 ** 1024\<close>) the conversion raises
  \<open>OverflowError\<close>.
\<close>

definition float_limit :: int where
  "float_limit = 2 ^ 1024 - 2 ^ 970"

text \<open>
  The number that \<open>total_score += v\<close> adds; \<open>None\<close> where Python raises \<open>TypeError\<close> or
  \<open>OverflowError\<close>.
\<close>

fun as_number :: "json \<Rightarrow> rat option" where
  "as_number (JNum r) = Some r"
| "as_number (JInt n) = (if \<bar>n\<bar> < float_limit then Some (of_int n) else None)"
| "as_number (JBool b) = Some (if b then 1 else 0)"
| "as_number _ = None"

section \<open>The outside world\<close>

text \<open>
  The language model and the container engine are external. A prompt is represented by
  its template and the texts interpolated into it. Every call is a transition of an
  arbitrary world state \<open>'w\<close>, so that the same prompt may be answered differently each time.
  \<open>print\<close> calls are not modelled.
\<close>

datatype request =
    DetectLanguagePrompt string
  | FixCodePrompt string string
  | TestCasesPrompt string string
  | ProblemCheckPrompt string string
  | EvaluatePrompt string string string
  | SplitProgramsPrompt string
  | SplitPartsPrompt string
  | SummaryPrompt string string

text \<open>
  What the \<open>try\<close> around \<open>client.containers.run(...)\<close> meets: the output, decoded by
  \<open>output.decode('utf-8')\<close>; a \<open>docker.errors.ContainerError\<close>, with what
  \<open>e.stderr.decode('utf-8')\<close> gives when the handler evaluates it (the text, or the
  exception that the decoding raises); or any other exception, with its message.
  Creating the temporary directory and writing the source file are taken to succeed.
\<close>

datatype run_result =
    Stdout string
  | ContainerError "exn + string"
  | OtherError string

text \<open>
  \<^item> \<open>model_ok\<close>: the module-level \<open>programming_model\<close> is not \<open>None\<close>;
  \<^item> \<open>generate_content\<close>: \<open>programming_model.generate_content(prompt).text\<close>, or the
    exception raised;
  \<^item> \<open>json_loads\<close>: \<open>json.loads\<close>;
  \<^item> \<open>py_str\<close>: \<open>str(v)\<close> for a value that is not a \<open>str\<close>;
  \<^item> \<open>docker_from_env\<close>: whether \<open>docker.from_env()\<close> returns a client;
  \<^item> \<open>containers_run\<close>: image, command, name and content of the mounted source file.
\<close>

record 'w env =
  model_ok :: bool
  generate_content :: "request \<Rightarrow> 'w \<Rightarrow> (exn + string) \<times> 'w"
  json_loads :: "string \<Rightarrow> exn + json"
  py_str :: "json \<Rightarrow> string"
  docker_from_env :: "'w \<Rightarrow> bool \<times> 'w"
  containers_run :: "string \<Rightarrow> string list \<Rightarrow> string \<Rightarrow> string \<Rightarrow> 'w \<Rightarrow> run_result \<times> 'w"

text \<open>A value interpolated into an f-string, or passed to \<open>str\<close>.\<close>

definition py_format :: "'w env \<Rightarrow> json \<Rightarrow> string" where
  "py_format env v = (case v of JStr s \<Rightarrow> s | _ \<Rightarrow> py_str env v)"

text \<open>\<open>text.replace("```json", "").replace("```", "").strip()\<close>\<close>

definition clean_json :: "string \<Rightarrow> string" where
  "clean_json text = strip (replace ''```'' '''' (replace ''```json'' '''' text))"

section \<open>Helpers of the analyzer\<close>

definition patterns :: "string list" where
  "patterns = [''input('', ''scanf'', ''cin'', ''readLine'', ''Scanner'']"

definition requires_input :: "string \<Rightarrow> bool" where
  "requires_input code = list_ex (\<lambda>pat. contains pat code) patterns"

definition detect_language :: "'w env \<Rightarrow> string \<Rightarrow> 'w \<Rightarrow> (exn + string) \<times> 'w" where
  "detect_language env code w =
     (case generate_content env (DetectLanguagePrompt code) w of
        (Inl e, w') \<Rightarrow> (Inl e, w')
      | (Inr text, w') \<Rightarrow>
          (let lang = lower (strip text)
           in (Inr (if list_ex (\<lambda>word. contains word lang) [''cpp'', ''c++'', ''c plus plus'']
                    then ''c++''
                    else if startswith lang ''python'' then ''python''
                    else if startswith lang ''java'' then ''java''
                    else if lang = ''c'' \<or> contains ''c lang'' lang then ''c''
                    else ''unsupported''), w')))"

text \<open>\<open>cleaned.split("\n", 1)[1]\<close>: the text after the first newline.\<close>

definition after_first_newline :: "string \<Rightarrow> exn + string" where
  "after_first_newline s =
     (case dropWhile (\<lambda>c. c \<noteq> CHR 0x0A) s of
        [] \<Rightarrow> Inl IndexError
      | c # rest \<Rightarrow> Inr rest)"

definition fix_code :: "'w env \<Rightarrow> string \<Rightarrow> string \<Rightarrow> 'w \<Rightarrow> (exn + string) \<times> 'w" where
  "fix_code env code language w =
     (case generate_content env (FixCodePrompt language code) w of
        (Inl e, w') \<Rightarrow> (Inl e, w')
      | (Inr text, w') \<Rightarrow>
          (let cleaned = strip text
           in case (if startswith cleaned ''```'' then after_first_newline cleaned
                    else Inr cleaned) of
                Inl e \<Rightarrow> (Inl e, w')
              | Inr cleaned' \<Rightarrow>
                  (Inr (if endswith cleaned' ''```''
                        then strip (take (length cleaned' - 3) cleaned')
                        else cleaned'), w')))"

definition generate_test_cases :: "'w env \<Rightarrow> string \<Rightarrow> string \<Rightarrow> 'w \<Rightarrow> json \<times> 'w" where
  "generate_test_cases env question language w =
     (case generate_content env (TestCasesPrompt question language) w of
        (Inl e, w') \<Rightarrow> (JArray [], w')
      | (Inr text, w') \<Rightarrow>
          (case json_loads env (clean_json text) of
             Inl e \<Rightarrow> (JArray [], w')
           | Inr v \<Rightarrow> (v, w')))"

definition split_programs :: "'w env \<Rightarrow> string \<Rightarrow> 'w \<Rightarrow> json \<times> 'w" where
  "split_programs env ocr_text w =
     (if \<not> model_ok env \<or> strip ocr_text = [] then (JArray [], w)
      else case generate_content env (SplitProgramsPrompt ocr_text) w of
             (Inl e, w') \<Rightarrow> (JArray [JStr ocr_text], w')
           | (Inr text, w') \<Rightarrow>
               (case json_loads env (clean_json text) of
                  Inl e \<Rightarrow> (JArray [JStr ocr_text], w')
                | Inr v \<Rightarrow>
                    (case py_get v ''programs'' (JArray []) of
                       Inl e \<Rightarrow> (JArray [JStr ocr_text], w')
                     | Inr r \<Rightarrow> (r, w'))))"

definition split_question_into_parts :: "'w env \<Rightarrow> string \<Rightarrow> 'w \<Rightarrow> json \<times> 'w" where
  "split_question_into_parts env question w =
     (if \<not> model_ok env \<or> strip question = [] then (JArray [JStr question], w)
      else case generate_content env (SplitPartsPrompt question) w of
             (Inl e, w') \<Rightarrow> (JArray [JStr question], w')
           | (Inr text, w') \<Rightarrow>
               (case json_loads env (clean_json text) of
                  Inl e \<Rightarrow> (JArray [JStr question], w')
                | Inr v \<Rightarrow>
                    (case py_get v ''parts'' (JArray [JStr question]) of
                       Inl e \<Rightarrow> (JArray [JStr question], w')
                     | Inr r \<Rightarrow> (r, w'))))"

definition generate_final_summary :: "'w env \<Rightarrow> string list \<Rightarrow> string \<Rightarrow> 'w \<Rightarrow> string \<times> 'w" where
  "generate_final_summary env justifications original_question w =
     (if \<not> model_ok env \<or> justifications = [] then (''Overall evaluation complete.'', w)
      else case generate_content env
                  (SummaryPrompt original_question (join (newline @ ''- '') justifications)) w of
             (Inl e, w') \<Rightarrow> (''Could not generate a final summary.'', w')
           | (Inr text, w') \<Rightarrow> (strip text, w'))"

section \<open>Container execution\<close>

text \<open>
  The per-language recipe (image, file name, shell command). Both \<open>_run_code_in_docker\<close>
  and \<open>_evaluate_test_cases\<close> contain this \<open>if\<close>/\<open>elif\<close> chain; \<open>None\<close> stands for the
  three variables being left at \<open>None\<close>.
\<close>

definition docker_config :: "string \<Rightarrow> string \<Rightarrow> (string \<times> string \<times> string list) option" where
  "docker_config language sanitized_input =
     (if language = ''python'' then
        Some (''python:3.9-slim'', ''student_code.py'',
              [''sh'', ''-c'', ''echo '' @ apostrophe @ sanitized_input @ apostrophe
                               @ '' | python -u /app/student_code.py''])
      else if language = ''c++'' then
        Some (''gcc:latest'', ''student_code.cpp'',
              [''sh'', ''-c'', ''g++ /app/student_code.cpp -o /app/program && echo ''
                               @ apostrophe @ sanitized_input @ apostrophe @ '' | /app/program''])
      else if language = ''c'' then
        Some (''gcc:latest'', ''student_code.c'',
              [''sh'', ''-c'', ''gcc /app/student_code.c -o /app/program && echo ''
                               @ apostrophe @ sanitized_input @ apostrophe @ '' | /app/program''])
      else if language = ''java'' then
        Some (''openjdk:17-slim-bullseye'', ''Main.java'',
              [''sh'', ''-c'', ''javac /app/Main.java && echo ''
                               @ apostrophe @ sanitized_input @ apostrophe
                               @ '' | java -cp /app Main''])
      else None)"

text \<open>\<open>str(case.get('input', '')).replace("'", "'\\''")\<close>\<close>

definition sanitize_input :: "'w env \<Rightarrow> json \<Rightarrow> string" where
  "sanitize_input env v =
     replace apostrophe (apostrophe @ [CHR 0x5C] @ apostrophe @ apostrophe) (py_format env v)"

text \<open>
  The comparison of \<open>_run_code_in_docker\<close> (lines 279 to 291), on the decoded output and
  on \<open>str(case.get('expected_output', ''))\<close>. When the numeric test does not succeed,
  control falls through to the equality test.
\<close>

definition verify :: "string \<Rightarrow> string \<Rightarrow> bool" where
  "verify output expected_output =
     (let sanitized_output = lower (strip output);
          sanitized_expected = lower (strip expected_output)
      in if isdigit sanitized_expected \<and>
            (case re_search_digits sanitized_output of
               Some m \<Rightarrow> m = sanitized_expected
             | None \<Rightarrow> False)
         then True
         else sanitized_output = sanitized_expected)"

text \<open>
  The \<open>for case in test_cases\<close> loop of \<open>_run_code_in_docker\<close>. An exception raised
  inside the \<open>ContainerError\<close> handler (line 295) is not caught by the \<open>except\<close> clause
  that follows and leaves the function.
\<close>

fun run_cases :: "'w env \<Rightarrow> string \<Rightarrow> string \<Rightarrow> json list \<Rightarrow> nat \<Rightarrow> 'w \<Rightarrow> (exn + nat) \<times> 'w" where
  "run_cases env code language [] passed_count w = (Inr passed_count, w)"
| "run_cases env code language (tc # rest) passed_count w =
     (case py_get tc ''input'' (JStr '''') of
        Inl e \<Rightarrow> (Inl e, w)
      | Inr inp \<Rightarrow>
          (case docker_config language (sanitize_input env inp) of
             None \<Rightarrow> run_cases env code language rest passed_count w
           | Some (img, file_name, run_command) \<Rightarrow>
               (case containers_run env img run_command file_name code w of
                  (Stdout output, w') \<Rightarrow>
                    (case py_get tc ''expected_output'' (JStr '''') of
                       Inl e \<Rightarrow> run_cases env code language rest passed_count w'
                     | Inr expd \<Rightarrow>
                         if verify output (py_format env expd)
                         then run_cases env code language rest (passed_count + 1) w'
                         else run_cases env code language rest passed_count w')
                | (ContainerError (Inl e), w') \<Rightarrow> (Inl e, w')
                | (ContainerError (Inr stderr), w') \<Rightarrow>
                    run_cases env code language rest passed_count w'
                | (OtherError msg, w') \<Rightarrow>
                    run_cases env code language rest passed_count w')))"

definition run_code_in_docker :: "'w env \<Rightarrow> string \<Rightarrow> string \<Rightarrow> json \<Rightarrow> 'w \<Rightarrow> (exn + nat) \<times> 'w" where
  "run_code_in_docker env code language test_cases w =
     (case docker_from_env env w of
        (False, w') \<Rightarrow> (Inl ConnectionError, w')
      | (True, w') \<Rightarrow>
          (case py_iter test_cases of
             Inl e \<Rightarrow> (Inl e, w')
           | Inr cases \<Rightarrow> run_cases env code (lower (strip language)) cases 0 w'))"

record test_result =
  input :: json
  expected :: json
  passed :: bool
  actual :: string
  error_message :: string

definition prime_indicators :: "bool \<Rightarrow> string list" where
  "prime_indicators b =
     (if b then [''is prime'', ''is a prime'', ''prime number'', ''true'']
      else [''not prime'', ''not a prime'', ''composite'', ''false''])"

text \<open>The body of the \<open>try\<close> of \<open>_evaluate_test_cases\<close> once the container has returned.\<close>

definition judge_output :: "'w env \<Rightarrow> test_result \<Rightarrow> string \<Rightarrow> test_result" where
  "judge_output env result output =
     (let act = strip output;
          sanitized_output = lower act;
          sanitized_expected = lower (strip (py_format env (expected result)));
          expected_prime = (lower sanitized_expected \<in> set [''true'', ''1'']);
          ok = list_ex (\<lambda>indicator. contains indicator (lower sanitized_output))
                       (prime_indicators expected_prime)
      in result\<lparr>actual := act, passed := ok,
                error_message := (if \<not> ok then ''Output indicates wrong primality'' else '''')\<rparr>)"

text \<open>
  The \<open>for case in test_cases\<close> loop of \<open>_evaluate_test_cases\<close>. It compares \<open>language\<close>
  as given and has no test of \<open>file_name\<close>: with the variables left at \<open>None\<close>,
  \<open>os.path.join(temp_dir, file_name)\<close> raises \<open>TypeError\<close> outside the \<open>try\<close>. An
  exception raised inside the \<open>ContainerError\<close> handler (line 423) leaves the function.
\<close>

fun evaluate_cases :: "'w env \<Rightarrow> string \<Rightarrow> string \<Rightarrow> json list \<Rightarrow> test_result list \<Rightarrow> 'w
                        \<Rightarrow> (exn + test_result list) \<times> 'w" where
  "evaluate_cases env code language [] results w = (Inr results, w)"
| "evaluate_cases env code language (tc # rest) results w =
     (case py_get tc ''input'' (JStr '''') of
        Inl e \<Rightarrow> (Inl e, w)
      | Inr inp \<Rightarrow>
          (case py_get tc ''expected_output'' (JStr '''') of
             Inl e \<Rightarrow> (Inl e, w)
           | Inr expd \<Rightarrow>
               (let result = \<lparr>input = inp, expected = expd, passed = False,
                               actual = '''', error_message = ''''\<rparr>
                in case docker_config language (sanitize_input env inp) of
                     None \<Rightarrow> (Inl TypeError, w)
                   | Some (img, file_name, run_command) \<Rightarrow>
                       (case containers_run env img run_command file_name code w of
                          (Stdout output, w') \<Rightarrow>
                            evaluate_cases env code language rest
                              (results @ [judge_output env result output]) w'
                        | (ContainerError (Inl e), w') \<Rightarrow> (Inl e, w')
                        | (ContainerError (Inr stderr), w') \<Rightarrow>
                            evaluate_cases env code language rest
                              (results @ [result\<lparr>error_message := ''Runtime Error: '' @ stderr\<rparr>]) w'
                        | (OtherError msg, w') \<Rightarrow>
                            evaluate_cases env code language rest
                              (results @ [result\<lparr>error_message := ''Execution Error: '' @ msg\<rparr>]) w'))))"

definition evaluate_test_cases :: "'w env \<Rightarrow> string \<Rightarrow> string \<Rightarrow> json \<Rightarrow> 'w
                                    \<Rightarrow> (exn + test_result list) \<times> 'w" where
  "evaluate_test_cases env code language test_cases w =
     (case docker_from_env env w of
        (False, w') \<Rightarrow> (Inl (External ''DockerException''), w')
      | (True, w') \<Rightarrow>
          (case py_iter test_cases of
             Inl e \<Rightarrow> (Inl e, w')
           | Inr cases \<Rightarrow> evaluate_cases env code language cases [] w'))"

section \<open>Grading one program against one part\<close>

definition label :: "nat \<Rightarrow> string" where
  "label i = ''P'' @ str_nat (i + 1)"

text \<open>
  The marks U+2713 and U+2717 of the test feedback lie outside the represented range;
  they stand here as their UTF-8 bytes.
\<close>

definition check_mark :: string where
  "check_mark = [CHR 0xE2, CHR 0x9C, CHR 0x93]"

definition cross_mark :: string where
  "cross_mark = [CHR 0xE2, CHR 0x9C, CHR 0x97]"

text \<open>One line of \<open>test_feedback\<close> (lines 101 to 105).\<close>

definition feedback_line :: "'w env \<Rightarrow> nat \<Rightarrow> test_result \<Rightarrow> string" where
  "feedback_line env idx result =
     ''Test '' @ str_nat (idx + 1) @ '': '' @ (if passed result then check_mark else cross_mark)
     @ '' Input: '' @ py_format env (input result)
     @ '' | Expected: '' @ py_format env (expected result)
     @ '' | Got: '' @ actual result
     @ '' | '' @ error_message result"

definition test_feedback :: "'w env \<Rightarrow> test_result list \<Rightarrow> string" where
  "test_feedback env test_results =
     join newline (map (\<lambda>(idx, result). feedback_line env idx result)
                       (zip [0..<length test_results] test_results))"

definition mismatch_justification :: "'w env \<Rightarrow> nat \<Rightarrow> json \<Rightarrow> json \<Rightarrow> string" where
  "mismatch_justification env i actual_problem_solved mismatch_explanation =
     label i @ '': This code does not solve the assigned problem. ''
     @ ''It appears to be a valid solution for: '' @ apostrophe
     @ py_format env actual_problem_solved @ apostrophe @ ''. ''
     @ ''Reason: '' @ py_format env mismatch_explanation"

definition verification_failed :: "nat \<Rightarrow> string" where
  "verification_failed i = label i @ '': Analysis failed during problem verification.''"

definition passed_justification :: "'w env \<Rightarrow> nat \<Rightarrow> nat \<Rightarrow> nat \<Rightarrow> json \<Rightarrow> test_result list \<Rightarrow> string" where
  "passed_justification env i passed_cases n part_question test_results =
     label i @ '': Passed '' @ str_nat passed_cases @ ''/'' @ str_nat n @ '' tests for ''
     @ apostrophe @ py_format env part_question @ apostrophe @ ''.'' @ newline
     @ ''Detailed Results:'' @ newline @ test_feedback env test_results"

text \<open>
  The dynamic branch (lines 60 to 115). The result is the value of \<open>score\<close> that line 138
  adds to \<open>total_score\<close> and the justifications appended; a \<open>continue\<close> leaves
  \<open>total_score\<close> as it is, which is the score \<open>0.0\<close>.
\<close>

definition grade_dynamic :: "'w env \<Rightarrow> nat \<Rightarrow> json \<Rightarrow> string \<Rightarrow> string \<Rightarrow> 'w
                              \<Rightarrow> (json \<times> string list) \<times> 'w" where
  "grade_dynamic env i part_question language fixed_code w =
     (case generate_test_cases env (py_format env part_question) language w of
        (test_cases, w1) \<Rightarrow>
          if \<not> truthy test_cases
          then ((JNum 0, [label i @ '': Could not generate test cases.'']), w1)
          else
            (case generate_content env
                    (ProblemCheckPrompt (py_format env part_question) fixed_code) w1 of
               (Inl e, w2) \<Rightarrow> ((JNum 0, [verification_failed i]), w2)
             | (Inr text, w2) \<Rightarrow>
                 (case json_loads env (clean_json text) of
                    Inl e \<Rightarrow> ((JNum 0, [verification_failed i]), w2)
                  | Inr problem_analysis \<Rightarrow>
                      (case py_get problem_analysis ''solves_intended_problem'' JNull of
                         Inl e \<Rightarrow> ((JNum 0, [verification_failed i]), w2)
                       | Inr solves \<Rightarrow>
                           if \<not> truthy solves
                           then ((JNum 0,
                                  [mismatch_justification env i
                                     (case py_get problem_analysis ''actual_problem_solved''
                                             (JStr ''an unknown problem'') of
                                        Inr v \<Rightarrow> v | Inl e \<Rightarrow> JNull)
                                     (case py_get problem_analysis ''mismatch_explanation''
                                             (JStr ''No explanation provided.'') of
                                        Inr v \<Rightarrow> v | Inl e \<Rightarrow> JNull)]), w2)
                           else
                             (case run_code_in_docker env fixed_code language test_cases w2 of
                                (Inl e, w3) \<Rightarrow> ((JNum 0, [verification_failed i]), w3)
                              | (Inr passed_cases, w3) \<Rightarrow>
                                  (case py_len test_cases of
                                     Inl e \<Rightarrow> ((JNum 0, [verification_failed i]), w3)
                                   | Inr n \<Rightarrow>
                                       (let score = (if truthy test_cases
                                                     then of_nat passed_cases / of_nat n else 0)
                                        in case evaluate_test_cases env fixed_code language
                                                  test_cases w3 of
                                             (Inl e, w4) \<Rightarrow>
                                               ((JNum score, [verification_failed i]), w4)
                                           | (Inr test_results, w4) \<Rightarrow>
                                               ((JNum score,
                                                 [passed_justification env i passed_cases n
                                                    part_question test_results]), w4))))))))"

text \<open>The static branch (lines 117 to 136).\<close>

definition grade_static :: "'w env \<Rightarrow> nat \<Rightarrow> json \<Rightarrow> string \<Rightarrow> string \<Rightarrow> 'w
                             \<Rightarrow> (json \<times> string list) \<times> 'w" where
  "grade_static env i part_question language fixed_code w =
     (case generate_content env
             (EvaluatePrompt language (py_format env part_question) fixed_code) w of
        (Inl e, w1) \<Rightarrow> ((JNum 0, [label i @ '': Gemini-only analysis failed.'']), w1)
      | (Inr text, w1) \<Rightarrow>
          (case json_loads env (clean_json text) of
             Inl e \<Rightarrow> ((JNum 0, [label i @ '': Gemini-only analysis failed.'']), w1)
           | Inr result \<Rightarrow>
               (case py_get result ''score'' (JNum 0) of
                  Inl e \<Rightarrow> ((JNum 0, [label i @ '': Gemini-only analysis failed.'']), w1)
                | Inr score \<Rightarrow>
                    (case py_get result ''justification''
                            (JStr ''Gemini evaluation completed.'') of
                       Inl e \<Rightarrow> ((JNum 0, [label i @ '': Gemini-only analysis failed.'']), w1)
                     | Inr justification \<Rightarrow>
                         ((score, [label i @ '': '' @ py_format env justification]), w1)))))"

text \<open>
  The body of the outer \<open>try\<close> (lines 50 to 143) for the pair with index \<open>i\<close>: what it
  adds to \<open>total_score\<close> and what it appends to \<open>all_justifications\<close>. An exception that
  reaches line 140, also the \<open>TypeError\<close> of \<open>total_score += score\<close> for a score that is
  not a number, appends the message of line 142 and adds nothing.
\<close>

definition grade_pair :: "'w env \<Rightarrow> nat \<Rightarrow> json \<Rightarrow> json \<Rightarrow> 'w \<Rightarrow> (rat \<times> string list) \<times> 'w" where
  "grade_pair env i program_code part_question w =
     (case detect_language env (py_format env program_code) w of
        (Inl e, w1) \<Rightarrow> ((0, [label i @ '': Analysis failed.'']), w1)
      | (Inr language, w1) \<Rightarrow>
          if language = ''unsupported''
          then ((0, [label i @ '': Could not detect a supported language, skipped.'']), w1)
          else
            (case fix_code env (py_format env program_code) language w1 of
               (Inl e, w2) \<Rightarrow> ((0, [label i @ '': Analysis failed.'']), w2)
             | (Inr fixed_code, w2) \<Rightarrow>
                 (case (if requires_input fixed_code
                        then grade_dynamic env i part_question language fixed_code w2
                        else grade_static env i part_question language fixed_code w2) of
                    ((score, justs), w3) \<Rightarrow>
                      (case as_number score of
                         Some r \<Rightarrow> ((r, justs), w3)
                       | None \<Rightarrow> ((0, justs @ [label i @ '': Analysis failed.'']), w3)))))"

section \<open>The submission\<close>

record 'w loop_state =
  total_score :: rat
  all_justifications :: "string list"
  world :: 'w

text \<open>A \<open>for\<close> loop over indices whose body may raise past the loop.\<close>

fun for_range :: "(nat \<Rightarrow> 's \<Rightarrow> exn + 's) \<Rightarrow> nat list \<Rightarrow> 's \<Rightarrow> exn + 's" where
  "for_range body [] st = Inr st"
| "for_range body (i # is) st =
     (case body i st of
        Inl e \<Rightarrow> Inl e
      | Inr st' \<Rightarrow> for_range body is st')"

text \<open>
  One iteration of step 3 (lines 45 to 143). The two subscripts and the slice
  \<open>part_question[:50]\<close> of line 48 are evaluated outside the \<open>try\<close>.
\<close>

definition loop_body :: "'w env \<Rightarrow> json \<Rightarrow> json \<Rightarrow> nat \<Rightarrow> 'w loop_state \<Rightarrow> exn + 'w loop_state" where
  "loop_body env programs parts i st =
     (case py_getitem programs i of
        Inl e \<Rightarrow> Inl e
      | Inr program_code \<Rightarrow>
          (case py_getitem parts i of
             Inl e \<Rightarrow> Inl e
           | Inr part_question \<Rightarrow>
               (case py_slice50 part_question of
                  Inl e \<Rightarrow> Inl e
                | Inr shown \<Rightarrow>
                    (case grade_pair env i program_code part_question (world st) of
                       ((score, justs), w') \<Rightarrow>
                         Inr \<lparr>total_score = total_score st + score,
                              all_justifications = all_justifications st @ justs,
                              world = w'\<rparr>))))"

definition missing_part :: "'w env \<Rightarrow> nat \<Rightarrow> json \<Rightarrow> string" where
  "missing_part env j shown =
     ''Part '' @ str_nat (j + 1) @ '' ('' @ apostrophe @ py_format env shown @ ''...''
     @ apostrophe @ ''): No program submitted.''"

text \<open>One iteration of step 4 (line 148).\<close>

definition missing_body :: "'w env \<Rightarrow> json \<Rightarrow> nat \<Rightarrow> 'w loop_state \<Rightarrow> exn + 'w loop_state" where
  "missing_body env parts j st =
     (case py_getitem parts j of
        Inl e \<Rightarrow> Inl e
      | Inr part \<Rightarrow>
          (case py_slice50 part of
             Inl e \<Rightarrow> Inl e
           | Inr shown \<Rightarrow>
               Inr (st\<lparr>all_justifications := all_justifications st @ [missing_part env j shown]\<rparr>)))"

text \<open>Steps 3 and 4 (lines 44 to 148), given \<open>mapped_count\<close> and \<open>len(parts)\<close>.\<close>

definition grade_mapped :: "'w env \<Rightarrow> json \<Rightarrow> json \<Rightarrow> nat \<Rightarrow> nat \<Rightarrow> 'w \<Rightarrow> exn + 'w loop_state" where
  "grade_mapped env parts programs mapped_count m w =
     (case for_range (loop_body env programs parts) [0..<mapped_count]
             \<lparr>total_score = 0, all_justifications = [], world = w\<rparr> of
        Inl e \<Rightarrow> Inl e
      | Inr st \<Rightarrow>
          if m > mapped_count
          then for_range (missing_body env parts) [mapped_count..<m] st
          else Inr st)"

record grading_outcome =
  score :: rat
  justification :: string

text \<open>Step 5 (lines 151 to 156).\<close>

definition aggregate :: "'w env \<Rightarrow> string \<Rightarrow> nat \<Rightarrow> 'w loop_state \<Rightarrow> grading_outcome \<times> 'w" where
  "aggregate env question mapped_count st =
     (case generate_final_summary env (all_justifications st) question (world st) of
        (final_summary, w') \<Rightarrow>
          (\<lparr>score = (if mapped_count \<noteq> 0 then total_score st / of_nat mapped_count else 0),
            justification = join '' | '' (all_justifications st)
                            @ '' | Final Remark: '' @ final_summary\<rparr>, w'))"

text \<open>Lines 39 to 156: steps 3 to 5 on the parts and programs obtained in steps 1 and 2.\<close>

definition analyze_mapped :: "'w env \<Rightarrow> string \<Rightarrow> json \<Rightarrow> json \<Rightarrow> 'w \<Rightarrow> exn + grading_outcome \<times> 'w" where
  "analyze_mapped env question parts programs w =
     (case py_len programs of
        Inl e \<Rightarrow> Inl e
      | Inr n \<Rightarrow>
          (case py_len parts of
             Inl e \<Rightarrow> Inl e
           | Inr m \<Rightarrow>
               (let mapped_count = min n m
                in case grade_mapped env parts programs mapped_count m w of
                     Inl e \<Rightarrow> Inl e
                   | Inr st \<Rightarrow> Inr (aggregate env question mapped_count st))))"

text \<open>\<open>Inl\<close>: an exception leaves the function.\<close>

definition analyze_programming_submission ::
    "'w env \<Rightarrow> string \<Rightarrow> string \<Rightarrow> 'w \<Rightarrow> exn + grading_outcome \<times> 'w" where
  "analyze_programming_submission env question ocr_code w =
     (if \<not> model_ok env \<or> ocr_code = []
      then Inr (\<lparr>score = 0, justification = ''Missing model or student code.''\<rparr>, w)
      else
        (case split_question_into_parts env question w of
           (parts0, w1) \<Rightarrow>
             (let parts = (if \<not> truthy parts0 then JArray [JStr question] else parts0)
              in case split_programs env ocr_code w1 of
                   (programs, w2) \<Rightarrow>
                     if \<not> truthy programs
                     then Inr (\<lparr>score = 0,
                                justification =
                                  ''No valid programs were found in the submission.''\<rparr>, w2)
                     else analyze_mapped env question parts programs w2)))"

section \<open>A scripted world\<close>

text \<open>
  A world that replays a script: the replies of the language model, the answers of
  \<open>docker.from_env()\<close> and the results of the container runs, each consumed in order.
  \<open>json.loads\<close> is a finite table from JSON texts to the values they denote; \<open>str\<close> is
  given for \<open>None\<close>, the truth values and the integers.
\<close>

definition str_value :: "json \<Rightarrow> string" where
  "str_value v =
     (case v of
        JNull \<Rightarrow> ''None''
      | JBool b \<Rightarrow> (if b then ''True'' else ''False'')
      | JInt n \<Rightarrow> (if n < 0 then ''-'' @ str_nat (nat (- n)) else str_nat (nat n))
      | _ \<Rightarrow> ''<value>'')"

type_synonym script = "(exn + string) list \<times> bool list \<times> run_result list"

definition scripted :: "(string \<times> json) list \<Rightarrow> script env" where
  "scripted table =
     \<lparr>model_ok = True,
      generate_content = (\<lambda>req (rs, ds, cs).
         case rs of
           [] \<Rightarrow> (Inl (External ''no reply''), ([], ds, cs))
         | r # rs' \<Rightarrow> (r, (rs', ds, cs))),
      json_loads = (\<lambda>s.
         case map_of table s of
           Some v \<Rightarrow> Inr v
         | None \<Rightarrow> Inl (External ''JSONDecodeError'')),
      py_str = str_value,
      docker_from_env = (\<lambda>(rs, ds, cs).
         case ds of
           [] \<Rightarrow> (False, (rs, [], cs))
         | d # ds' \<Rightarrow> (d, (rs, ds', cs))),
      containers_run = (\<lambda>img cmd file_name code (rs, ds, cs).
         case cs of
           [] \<Rightarrow> (OtherError ''no container'', (rs, ds, []))
         | c # cs' \<Rightarrow> (c, (rs, ds, cs')))\<rparr>"

definition demo_table :: "(string \<times> json) list" where
  \<open>demo_table =
     [(''{"score": 1, "justification": "correct"}'',
         JObject [(''score'', JInt 1), (''justification'', JStr ''correct'')]),
      (''{"score": 0.5, "justification": "partly"}'',
         JObject [(''score'', JNum (1 / 2)), (''justification'', JStr ''partly'')]),
      (''{"score": 0, "justification": "wrong"}'',
         JObject [(''score'', JInt 0), (''justification'', JStr ''wrong'')]),
      (''{}'', JObject []),
      (''{"parts": ["a", "b", "c", "d"]}'',
         JObject [(''parts'', JArray [JStr ''a'', JStr ''b'', JStr ''c'', JStr ''d''])]),
      (''{"programs": ["p1", "p2", "p3"]}'',
         JObject [(''programs'', JArray [JStr ''p1'', JStr ''p2'', JStr ''p3''])]),
      (''[{"input": "7", "expected_output": "49"}]'',
         JArray [JObject [(''input'', JStr ''7''), (''expected_output'', JStr ''49'')]]),
      (''{"solves_intended_problem": true}'',
         JObject [(''solves_intended_problem'', JBool True)]),
      (''{"solves_intended_problem": false, "actual_problem_solved": "doubling a number", "mismatch_explanation": "the question asks for the square"}'',
         JObject [(''solves_intended_problem'', JBool False),
                  (''actual_problem_solved'', JStr ''doubling a number''),
                  (''mismatch_explanation'', JStr ''the question asks for the square'')])]\<close>

definition demo_env :: "script env" where
  "demo_env = scripted demo_table"

text \<open>The same world with a parser that also knows a judgment whose score is 2.\<close>

definition overrated_env :: "script env" where
  \<open>overrated_env =
     scripted ((''{"score": 2, "justification": "superb"}'',
                JObject [(''score'', JInt 2), (''justification'', JStr ''superb'')])
               # demo_table)\<close>

text \<open>
  Every judgment of the static branch that parses and carries a numeric score carries
  one between 0 and 1.
\<close>

definition static_scores_in_range :: "'w env \<Rightarrow> bool" where
  "static_scores_in_range env =
     (\<forall>language part code w text w' result sc r.
        generate_content env (EvaluatePrompt language part code) w = (Inr text, w') \<longrightarrow>
        json_loads env (clean_json text) = Inr result \<longrightarrow>
        py_get result ''score'' (JNum 0) = Inr sc \<longrightarrow>
        as_number sc = Some r \<longrightarrow> 0 \<le> r \<and> r \<le> 1)"

section \<open>Per-pair outcomes\<close>

text \<open>
  The outcomes (score added, justifications appended) of the pairs with the given
  indices, in the order in which step 3 grades them, each in the world its predecessor
  left behind. This is the list of per-pair scores that the aggregate is compared with.
\<close>

fun pair_outcomes :: "'w env \<Rightarrow> json \<Rightarrow> json \<Rightarrow> nat list \<Rightarrow> 'w \<Rightarrow> (rat \<times> string list) list" where
  "pair_outcomes env programs parts [] w = []"
| "pair_outcomes env programs parts (i # is) w =
     (case py_getitem programs i of
        Inl e \<Rightarrow> []
      | Inr program_code \<Rightarrow>
          (case py_getitem parts i of
             Inl e \<Rightarrow> []
           | Inr part_question \<Rightarrow>
               (case grade_pair env i program_code part_question w of
                  (outcome, w') \<Rightarrow> outcome # pair_outcomes env programs parts is w')))"

text \<open>Three programs judged statically with scores 1, 0.5 and 0, against four parts.\<close>

definition static_pairs_script :: script where
  \<open>static_pairs_script =
     ([Inr ''Python'', Inr ''print(1)'', Inr ''{"score": 1, "justification": "correct"}'',
       Inr ''Python'', Inr ''print(2)'', Inr ''{"score": 0.5, "justification": "partly"}'',
       Inr ''Python'', Inr ''print(3)'', Inr ''{"score": 0, "justification": "wrong"}'',
       Inr ''Good work.''], [], [])\<close>

definition static_script :: script where
  \<open>static_script =
     ([Inr ''{"parts": ["a", "b", "c", "d"]}'',
       Inr ''```json {"programs": ["p1", "p2", "p3"]} ```'']
      @ fst static_pairs_script, [], [])\<close>

text \<open>
  One program judged statically with score 2; the replies to the two splitting prompts
  do not parse, so the whole question and the whole text are used.
\<close>

definition overrated_script :: script where
  \<open>overrated_script =
     ([Inr ''not json'', Inr ''not json'',
       Inr ''Python'', Inr ''print(1)'', Inr ''{"score": 2, "justification": "superb"}'',
       Inr ''Fine.''], [], [])\<close>

text \<open>
  One program that reads input, one generated test case, and an intent check that
  reports a mismatch; the engine and a container output are available all the same.
\<close>

definition mismatch_script :: script where
  \<open>mismatch_script =
     ([Inr ''[{"input": "7", "expected_output": "49"}]'',
       Inr ''{"solves_intended_problem": false, "actual_problem_solved": "doubling a number", "mismatch_explanation": "the question asks for the square"}''],
      [True, True], [Stdout ''49'', Stdout ''49''])\<close>




text \<open>The same with the engine reachable and a program that prints the expected output.\<close>

definition passing_script :: script where
  \<open>passing_script =
     ([Inr ''[{"input": "7", "expected_output": "49"}]'',
       Inr ''{"solves_intended_problem": true}''],
      [True, True], [Stdout ''49'', Stdout ''49''])\<close>

text \<open>
  A world whose parser also knows two judgments with a score that cannot be added: a
  string, and the integer \<open>10 ^ 400\<close>, which is too large for a float.
\<close>

definition odd_scores_env :: "script env" where
  \<open>odd_scores_env =
     scripted ((''{"score": "high", "justification": "good"}'',
                JObject [(''score'', JStr ''high''), (''justification'', JStr ''good'')])
               # (''{"score": 1'' @ replicate 400 (CHR ''0'') @ ''}'',
                  JObject [(''score'', JInt (10 ^ 400))])
               # demo_table)\<close>


section \<open>Properties\<close>

subsection \<open>Strings\<close>

lemma contains_sublist: "contains pat s = sublist pat s"
  by (induction s) (simp_all add: sublist_Cons_right)

lemma contains_iff: "contains pat s \<longleftrightarrow> (\<exists>u v. s = u @ pat @ v)"
  by (simp add: contains_sublist sublist_def)

lemma decimal_search:
  "e \<noteq> [] \<Longrightarrow> list_all decimal_char e \<Longrightarrow> re_search_digits e = Some e"
proof -
  assume n: "e \<noteq> []" and a: "list_all decimal_char e"
  from n obtain d t where e: "e = d # t" by (cases e) auto
  from a have all: "\<forall>c \<in> set e. decimal_char c" by (simp add: list_all_iff)
  then have "dropWhile (\<lambda>c. \<not> decimal_char c) e = e" using e by simp
  moreover have "takeWhile decimal_char e = e" using all by (simp add: takeWhile_eq_all_conv)
  ultimately show ?thesis using e by (simp add: re_search_digits_def)
qed





subsection \<open>The output comparison\<close>





text \<open>
  Claim C8. For a string \<open>x\<close> that is already trimmed and lowercased, an output \<open>x\<close>
  passes against the expected output \<open>x\<close>: through the numeric match when \<open>x\<close> consists of
  decimal digits, through the equality test otherwise; the loop of \<open>_run_code_in_docker\<close>
  then counts the test case.
\<close>


theorem verify_reflexive:
  "strip x = x \<Longrightarrow> lower x = x \<Longrightarrow>
     verify x x
     \<and> (x \<noteq> [] \<and> list_all decimal_char x \<longrightarrow>
        re_search_digits (lower (strip x)) = Some (lower (strip x)))
     \<and> (py_get tc ''input'' (JStr '''') = Inr inp \<longrightarrow>
        docker_config language (sanitize_input env inp) = Some (img, file_name, run_command) \<longrightarrow>
        containers_run env img run_command file_name code w = (Stdout x, w') \<longrightarrow>
        py_get tc ''expected_output'' (JStr '''') = Inr (JStr x) \<longrightarrow>
        run_cases env code language [tc] passed_count w = (Inr (passed_count + 1), w'))"
proof -
  assume n: "strip x = x" "lower x = x"
  have v: "verify x x" by (simp add: verify_def Let_def)
  have d: "x \<noteq> [] \<and> list_all decimal_char x \<longrightarrow>
             re_search_digits (lower (strip x)) = Some (lower (strip x))"
    using n decimal_search by simp
  have r: "py_get tc ''input'' (JStr '''') = Inr inp \<longrightarrow>
        docker_config language (sanitize_input env inp) = Some (img, file_name, run_command) \<longrightarrow>
        containers_run env img run_command file_name code w = (Stdout x, w') \<longrightarrow>
        py_get tc ''expected_output'' (JStr '''') = Inr (JStr x) \<longrightarrow>
        run_cases env code language [tc] passed_count w = (Inr (passed_count + 1), w')"
    using v by (simp add: py_format_def)
  from v d r show ?thesis by blast
qed

theorem verify_reflexive_witness:
  "strip ''49'' = ''49'' \<and> lower ''49'' = ''49'' \<and> verify ''49'' ''49''
   \<and> ''49'' \<noteq> [] \<and> list_all decimal_char ''49''
   \<and> re_search_digits (lower (strip ''49'')) = Some (lower (strip ''49''))
   \<and> run_cases demo_env ''print(49)'' ''python''
        [JObject [(''input'', JStr ''7''), (''expected_output'', JStr ''49'')]] 0
        ([], [], [Stdout ''49'']) = (Inr (0 + 1), ([], [], []))"
proof -
  have s: "strip ''49'' = ''49''" by code_simp
  have l: "lower ''49'' = ''49''" by code_simp
  have d: "''49'' \<noteq> [] \<and> list_all decimal_char ''49''" by code_simp
  have i: "py_get (JObject [(''input'', JStr ''7''), (''expected_output'', JStr ''49'')])
             ''input'' (JStr '''') = Inr (JStr ''7'')" by simp
  have c: "docker_config ''python'' (sanitize_input demo_env (JStr ''7'')) =
             Some (''python:3.9-slim'', ''student_code.py'',
                   [''sh'', ''-c'', ''echo '' @ apostrophe @ ''7'' @ apostrophe
                                    @ '' | python -u /app/student_code.py''])"
    by code_simp
  have r: "containers_run demo_env ''python:3.9-slim''
             [''sh'', ''-c'', ''echo '' @ apostrophe @ ''7'' @ apostrophe
                              @ '' | python -u /app/student_code.py'']
             ''student_code.py'' ''print(49)'' ([], [], [Stdout ''49''])
           = (Stdout ''49'', ([], [], []))"
    by (simp add: demo_env_def scripted_def)
  have e: "py_get (JObject [(''input'', JStr ''7''), (''expected_output'', JStr ''49'')])
             ''expected_output'' (JStr '''') = Inr (JStr ''49'')" by simp
  from verify_reflexive [OF s l, of "JObject [(''input'', JStr ''7''), (''expected_output'', JStr ''49'')]"
         "JStr ''7''" "''python''" demo_env "''python:3.9-slim''" "''student_code.py''"
         "[''sh'', ''-c'', ''echo '' @ apostrophe @ ''7'' @ apostrophe
                              @ '' | python -u /app/student_code.py'']"
         "''print(49)''" "([], [], [Stdout ''49''])" "([], [], [])" 0]
       s l d i c r e
  show ?thesis by blast
qed

subsection \<open>The execution-policy selector\<close>

text \<open>
  Claim C10. \<open>_requires_input\<close> is true exactly when the source text contains one of
  "input(", "scanf", "cin", "readLine", "Scanner" as a substring, wherever it stands. So
  a text that has such a substring inside a comment, a string literal or a longer
  identifier such as "cinema" is classified as reading input, and a pair whose repaired
  code is such a text is graded on the dynamic path.
\<close>

theorem requires_input_substring:
  "(requires_input code \<longleftrightarrow>
      (\<exists>pat \<in> set [''input('', ''scanf'', ''cin'', ''readLine'', ''Scanner''].
         \<exists>u v. code = u @ pat @ v))
   \<and> requires_input (u @ ''cinema'' @ v)
   \<and> (pat \<in> set [''input('', ''scanf'', ''cin'', ''readLine'', ''Scanner''] \<longrightarrow>
        requires_input (u @ pat @ v)
        \<and> (detect_language env (py_format env program_code) w = (Inr language, w1) \<longrightarrow>
           language \<noteq> ''unsupported'' \<longrightarrow>
           fix_code env (py_format env program_code) language w1 = (Inr (u @ pat @ v), w2) \<longrightarrow>
           grade_pair env i program_code part_question w =
             (case grade_dynamic env i part_question language (u @ pat @ v) w2 of
                ((sc, justs), w3) \<Rightarrow>
                  (case as_number sc of
                     Some r \<Rightarrow> ((r, justs), w3)
                   | None \<Rightarrow> ((0, justs @ [label i @ '': Analysis failed.'']), w3)))))"
proof -
  have iff: "\<And>c. requires_input c \<longleftrightarrow>
      (\<exists>pat \<in> set [''input('', ''scanf'', ''cin'', ''readLine'', ''Scanner''].
         \<exists>u v. c = u @ pat @ v)"
    unfolding requires_input_def patterns_def list_ex_iff contains_iff by (rule refl)
  have cinema: "requires_input (u @ ''cinema'' @ v)"
  proof -
    have "u @ ''cinema'' @ v = u @ ''cin'' @ (''ema'' @ v)" by simp
    then show ?thesis unfolding iff by (intro bexI[of _ "''cin''"] exI) simp_all
  qed
  have route: "pat \<in> set [''input('', ''scanf'', ''cin'', ''readLine'', ''Scanner''] \<longrightarrow>
        requires_input (u @ pat @ v)
        \<and> (detect_language env (py_format env program_code) w = (Inr language, w1) \<longrightarrow>
           language \<noteq> ''unsupported'' \<longrightarrow>
           fix_code env (py_format env program_code) language w1 = (Inr (u @ pat @ v), w2) \<longrightarrow>
           grade_pair env i program_code part_question w =
             (case grade_dynamic env i part_question language (u @ pat @ v) w2 of
                ((sc, justs), w3) \<Rightarrow>
                  (case as_number sc of
                     Some r \<Rightarrow> ((r, justs), w3)
                   | None \<Rightarrow> ((0, justs @ [label i @ '': Analysis failed.'']), w3))))"
  proof
    assume p: "pat \<in> set [''input('', ''scanf'', ''cin'', ''readLine'', ''Scanner'']"
    have r: "requires_input (u @ pat @ v)" unfolding iff using p by blast
    then show "requires_input (u @ pat @ v)
        \<and> (detect_language env (py_format env program_code) w = (Inr language, w1) \<longrightarrow>
           language \<noteq> ''unsupported'' \<longrightarrow>
           fix_code env (py_format env program_code) language w1 = (Inr (u @ pat @ v), w2) \<longrightarrow>
           grade_pair env i program_code part_question w =
             (case grade_dynamic env i part_question language (u @ pat @ v) w2 of
                ((sc, justs), w3) \<Rightarrow>
                  (case as_number sc of
                     Some r \<Rightarrow> ((r, justs), w3)
                   | None \<Rightarrow> ((0, justs @ [label i @ '': Analysis failed.'']), w3))))"
      by (simp add: grade_pair_def)
  qed
  from iff[of code] cinema route show ?thesis by blast
qed

theorem requires_input_substring_witness:
  "requires_input (''# '' @ ''cin'' @ ''ema listing'')
   \<and> grade_pair demo_env 0 (JStr ''# cinema listing'') (JStr ''Print a listing'')
        ([Inr ''Python'', Inr ''# cinema listing'', Inr ''none''], [], [])
      = ((0, [''P1: Could not generate test cases.'']), ([], [], []))"
proof -
  have p: "''cin'' \<in> set [''input('', ''scanf'', ''cin'', ''readLine'', ''Scanner'']" by simp
  have d: "detect_language demo_env (py_format demo_env (JStr ''# cinema listing''))
             ([Inr ''Python'', Inr ''# cinema listing'', Inr ''none''], [], [])
           = (Inr ''python'', ([Inr ''# cinema listing'', Inr ''none''], [], []))"
    by code_simp
  have n: "''python'' \<noteq> ''unsupported''" by simp
  have f: "fix_code demo_env (py_format demo_env (JStr ''# cinema listing'')) ''python''
             ([Inr ''# cinema listing'', Inr ''none''], [], [])
           = (Inr (''# '' @ ''cin'' @ ''ema listing''), ([Inr ''none''], [], []))"
    by code_simp
  have g: "(case grade_dynamic demo_env 0 (JStr ''Print a listing'') ''python''
                   (''# '' @ ''cin'' @ ''ema listing'') ([Inr ''none''], [], []) of
              ((sc, justs), w3) \<Rightarrow>
                (case as_number sc of
                   Some r \<Rightarrow> ((r, justs), w3)
                 | None \<Rightarrow> ((0, justs @ [label 0 @ '': Analysis failed.'']), w3)))
           = ((0, [''P1: Could not generate test cases.'']), ([], [], []))"
    by code_simp
  note t = requires_input_substring [of "''# cinema listing''" "''# ''" "''ema listing''" "''cin''"
         demo_env "JStr ''# cinema listing''"
         "([Inr ''Python'', Inr ''# cinema listing'', Inr ''none''], [], [])" "''python''"
         "([Inr ''# cinema listing'', Inr ''none''], [], [])" "([Inr ''none''], [], [])"
         0 "JStr ''Print a listing''"]
  note c = t [THEN conjunct2, THEN conjunct2, rule_format, OF p]
  have r: "requires_input (''# '' @ ''cin'' @ ''ema listing'')" by (rule c [THEN conjunct1])
  have "grade_pair demo_env 0 (JStr ''# cinema listing'') (JStr ''Print a listing'')
        ([Inr ''Python'', Inr ''# cinema listing'', Inr ''none''], [], [])
      = ((0, [''P1: Could not generate test cases.'']), ([], [], []))"
    by (rule trans [OF c [THEN conjunct2, rule_format, OF d n f] g])
  with r show ?thesis by (rule_tac conjI)
qed

subsection \<open>Iteration over the pairs and over the missing parts\<close>

lemma loop_body_Inr:
  "loop_body env programs parts i st = Inr st1 \<Longrightarrow>
     \<exists>pc pq sc js w1.
        py_getitem programs i = Inr pc \<and> py_getitem parts i = Inr pq \<and>
        grade_pair env i pc pq (world st) = ((sc, js), w1) \<and>
        st1 = \<lparr>total_score = total_score st + sc,
               all_justifications = all_justifications st @ js, world = w1\<rparr>"
  by (auto simp: loop_body_def split: sum.splits prod.splits)

lemma for_range_Cons_Inr:
  "for_range body (i # is) st = Inr st' \<Longrightarrow>
     \<exists>st1. body i st = Inr st1 \<and> for_range body is st1 = Inr st'"
  by (cases "body i st") simp_all

lemma for_range_loop_body:
  "for_range (loop_body env programs parts) is st = Inr st' \<Longrightarrow>
     total_score st' =
       total_score st + sum_list (map fst (pair_outcomes env programs parts is (world st))) \<and>
     all_justifications st' =
       all_justifications st @ concat (map snd (pair_outcomes env programs parts is (world st))) \<and>
     length (pair_outcomes env programs parts is (world st)) = length is"
proof (induction "is" arbitrary: st)
  case Nil
  then show ?case by simp
next
  case (Cons i "is")
  from for_range_Cons_Inr [OF Cons.prems] obtain st1
    where b: "loop_body env programs parts i st = Inr st1"
      and r: "for_range (loop_body env programs parts) is st1 = Inr st'"
    by auto
  from loop_body_Inr [OF b] obtain pc pq sc js w1 where
    g: "py_getitem programs i = Inr pc" "py_getitem parts i = Inr pq"
       "grade_pair env i pc pq (world st) = ((sc, js), w1)"
    and st1: "st1 = \<lparr>total_score = total_score st + sc,
                     all_justifications = all_justifications st @ js, world = w1\<rparr>"
    by blast
  have p: "pair_outcomes env programs parts (i # is) (world st) =
             (sc, js) # pair_outcomes env programs parts is w1"
    using g by simp
  from Cons.IH [OF r] show ?case
    by (simp add: p st1 add.assoc del: pair_outcomes.simps)
qed

lemma for_range_missing_body:
  "for_range (missing_body env parts) js st = Inr st' \<Longrightarrow>
     total_score st' = total_score st \<and> world st' = world st"
proof (induction js arbitrary: st)
  case Nil
  then show ?case by simp
next
  case (Cons j js)
  from for_range_Cons_Inr [OF Cons.prems] obtain st1
    where b: "missing_body env parts j st = Inr st1"
      and r: "for_range (missing_body env parts) js st1 = Inr st'"
    by auto
  from b have "total_score st1 = total_score st \<and> world st1 = world st"
    by (auto simp: missing_body_def split: sum.splits)
  with Cons.IH [OF r] show ?case by simp
qed

text \<open>A part whose first 50 items can be taken: a string or a list.\<close>

lemma for_range_missing_sliceable:
  "\<forall>j \<in> set js. j < length qs \<and> (\<exists>shown. py_slice50 (qs ! j) = Inr shown) \<Longrightarrow>
     for_range (missing_body env (JArray qs)) js st =
       Inr (st\<lparr>all_justifications := all_justifications st
                  @ map (\<lambda>j. missing_part env j
                                (case py_slice50 (qs ! j) of Inr shown \<Rightarrow> shown | Inl e \<Rightarrow> JNull))
                        js\<rparr>)"
proof (induction js arbitrary: st)
  case Nil
  then show ?case by simp
next
  case (Cons j js)
  then obtain shown where "py_slice50 (qs ! j) = Inr shown" by auto
  with Cons show ?case by (simp add: missing_body_def)
qed

lemma for_range_loop_body_sliceable:
  "\<forall>i \<in> set is. i < length ps \<and> i < length qs \<and> (\<exists>shown. py_slice50 (qs ! i) = Inr shown) \<Longrightarrow>
     \<exists>st'. for_range (loop_body env (JArray ps) (JArray qs)) is st = Inr st'"
proof (induction "is" arbitrary: st)
  case Nil
  then show ?case by simp
next
  case (Cons i "is")
  then obtain shown where "py_slice50 (qs ! i) = Inr shown" by auto
  with Cons show ?case by (simp add: loop_body_def split: prod.splits)
qed

lemma for_range_cong:
  "(\<And>i st. i \<in> set is \<Longrightarrow> f i st = g i st) \<Longrightarrow> for_range f is st = for_range g is st"
  by (induction "is" arbitrary: st) (simp_all split: sum.splits)

lemma pair_outcomes_nth:
  "k < length (pair_outcomes env programs parts is w) \<Longrightarrow>
     \<exists>wk pc pq. py_getitem programs (is ! k) = Inr pc \<and> py_getitem parts (is ! k) = Inr pq \<and>
        pair_outcomes env programs parts is w ! k = fst (grade_pair env (is ! k) pc pq wk)"
proof (induction "is" arbitrary: k w)
  case Nil
  then show ?case by simp
next
  case (Cons i "is")
  from Cons.prems obtain pc pq where g: "py_getitem programs i = Inr pc" "py_getitem parts i = Inr pq"
    by (auto split: sum.splits)
  obtain oc w1 where gp: "grade_pair env i pc pq w = (oc, w1)" by (cases "grade_pair env i pc pq w")
  have p: "pair_outcomes env programs parts (i # is) w = oc # pair_outcomes env programs parts is w1"
    using g gp by simp
  show ?case
  proof (cases k)
    case 0
    then show ?thesis using g gp p by (metis fst_conv nth_Cons_0)
  next
    case (Suc k')
    with Cons.prems p have "k' < length (pair_outcomes env programs parts is w1)" by simp
    from Cons.IH [OF this] show ?thesis using p Suc by simp
  qed
qed

subsection \<open>Aggregation\<close>

lemma grade_mapped_Inr:
  "grade_mapped env parts programs k m w = Inr st \<Longrightarrow>
     total_score st = sum_list (map fst (pair_outcomes env programs parts [0..<k] w)) \<and>
     length (pair_outcomes env programs parts [0..<k] w) = k"
proof -
  assume a: "grade_mapped env parts programs k m w = Inr st"
  then obtain st0 where
    l: "for_range (loop_body env programs parts) [0..<k]
          \<lparr>total_score = 0, all_justifications = [], world = w\<rparr> = Inr st0"
    and r: "st = st0 \<or> for_range (missing_body env parts) [k..<m] st0 = Inr st"
    by (auto simp: grade_mapped_def split: sum.splits if_splits)
  from r have t: "total_score st = total_score st0"
    using for_range_missing_body by blast
  from for_range_loop_body [OF l] t show ?thesis by simp
qed

lemma aggregate_score:
  "score (fst (aggregate env question k st)) =
     (if k \<noteq> 0 then total_score st / of_nat k else 0)"
  by (simp add: aggregate_def split: prod.splits)

lemma analyze_mapped_score:
  "analyze_mapped env question parts programs w = Inr (out, w') \<Longrightarrow>
     \<exists>n m. py_len programs = Inr n \<and> py_len parts = Inr m \<and>
       length (pair_outcomes env programs parts [0..<min n m] w) = min n m \<and>
       score out =
         (if min n m \<noteq> 0
          then sum_list (map fst (pair_outcomes env programs parts [0..<min n m] w))
               / of_nat (min n m)
          else 0)"
proof -
  assume a: "analyze_mapped env question parts programs w = Inr (out, w')"
  then obtain n m st where n: "py_len programs = Inr n" and m: "py_len parts = Inr m"
    and g: "grade_mapped env parts programs (min n m) m w = Inr st"
    and o: "(out, w') = aggregate env question (min n m) st"
    by (auto simp: analyze_mapped_def Let_def split: sum.splits)
  from o have "score out = score (fst (aggregate env question (min n m) st))"
    by (metis fst_conv)
  with grade_mapped_Inr [OF g] n m show ?thesis
    by (simp add: aggregate_score)
qed

lemma analyze_programming_submission_cases:
  "analyze_programming_submission env question ocr_code w = Inr (out, w') \<Longrightarrow>
   split_question_into_parts env question w = (parts0, w1) \<Longrightarrow>
   split_programs env ocr_code w1 = (programs, w2) \<Longrightarrow>
     (if model_ok env \<and> ocr_code \<noteq> [] \<and> truthy programs
      then analyze_mapped env question
             (if \<not> truthy parts0 then JArray [JStr question] else parts0) programs w2
           = Inr (out, w')
      else score out = 0)"
  by (auto simp: analyze_programming_submission_def Let_def split: if_splits)




subsection \<open>Positional mapping\<close>

lemma loop_body_take:
  "i < m \<Longrightarrow> loop_body env (JArray (take m ps)) parts i st = loop_body env (JArray ps) parts i st"
  by (simp add: loop_body_def)

lemma grade_mapped_take:
  "k \<le> m \<Longrightarrow>
     grade_mapped env parts (JArray (take m ps)) k m w = grade_mapped env parts (JArray ps) k m w"
proof -
  assume k: "k \<le> m"
  have "\<And>st. for_range (loop_body env (JArray (take m ps)) parts) [0..<k] st =
              for_range (loop_body env (JArray ps) parts) [0..<k] st"
    using k by (intro for_range_cong loop_body_take) simp
  then show ?thesis by (simp add: grade_mapped_def)
qed

lemma missing_part_text:
  "missing_part env j shown =
     ''Part '' @ str_nat (j + 1) @ '' ('' @ [CHR 0x27] @ py_format env shown @ ''...''
     @ [CHR 0x27] @ ''): No program submitted.''"
  by (simp add: missing_part_def apostrophe_def)

text \<open>
  Claim C2. Let steps 1 and 2 yield \<open>M \<ge> 1\<close> parts (strings, or lists, of which the first
  50 items can be shown) and \<open>N \<ge> 1\<close> programs. Then \<open>analyze_programming_submission\<close>
  grades exactly \<open>min N M\<close> pairs, the \<open>k\<close>-th being program \<open>k\<close> with part \<open>k\<close>; its
  score is the sum of their scores over \<open>min N M\<close>; its justification joins their
  justifications, in order, then one entry "Part j ('...'): No program submitted." for
  each of the \<open>M - N\<close> trailing parts, then the final remark; and it is the result of
  steps 3 to 5 on the first \<open>M\<close> programs alone: the programs beyond leave no trace.
\<close>

theorem positional_mapping:
  "model_ok env \<Longrightarrow> ocr_code \<noteq> [] \<Longrightarrow>
   split_question_into_parts env question w = (JArray qs, w1) \<Longrightarrow>
   split_programs env ocr_code w1 = (JArray ps, w2) \<Longrightarrow>
   ps \<noteq> [] \<Longrightarrow> qs \<noteq> [] \<Longrightarrow>
   \<forall>q \<in> set qs. \<exists>shown. py_slice50 q = Inr shown \<Longrightarrow>
   (let N = length ps; M = length qs;
        outcomes = pair_outcomes env (JArray ps) (JArray qs) [0..<min N M] w2;
        missing = map (\<lambda>j. ''Part '' @ str_nat (j + 1) @ '' ('' @ [CHR 0x27]
                            @ (case py_slice50 (qs ! j) of
                                 Inr shown \<Rightarrow> py_format env shown | Inl e \<Rightarrow> [])
                            @ ''...'' @ [CHR 0x27] @ ''): No program submitted.'')
                      [min N M..<M]
    in length outcomes = min N M
       \<and> (\<forall>k<min N M. \<exists>wk. outcomes ! k = fst (grade_pair env k (ps ! k) (qs ! k) wk))
       \<and> length missing = M - N
       \<and> (\<exists>summary w'.
             analyze_programming_submission env question ocr_code w =
               Inr (\<lparr>score = sum_list (map fst outcomes) / of_nat (min N M),
                      justification = join '' | '' (concat (map snd outcomes) @ missing)
                                      @ '' | Final Remark: '' @ summary\<rparr>, w'))
       \<and> analyze_programming_submission env question ocr_code w
           = analyze_mapped env question (JArray qs) (JArray ps) w2
       \<and> analyze_mapped env question (JArray qs) (JArray (take M ps)) w2
           = analyze_mapped env question (JArray qs) (JArray ps) w2)"
proof -
  assume mo: "model_ok env" and oc: "ocr_code \<noteq> []"
    and s1: "split_question_into_parts env question w = (JArray qs, w1)"
    and s2: "split_programs env ocr_code w1 = (JArray ps, w2)"
    and pn: "ps \<noteq> []" and qn: "qs \<noteq> []"
    and sl: "\<forall>q \<in> set qs. \<exists>shown. py_slice50 q = Inr shown"
  define N where "N = length ps"
  define M where "M = length qs"
  define programs where "programs = JArray ps"
  define parts where "parts = JArray qs"
  define k where "k = min N M"
  define outcomes where "outcomes = pair_outcomes env programs parts [0..<k] w2"
  define missing where
    "missing = map (\<lambda>j. ''Part '' @ str_nat (j + 1) @ '' ('' @ [CHR 0x27]
                            @ (case py_slice50 (qs ! j) of
                                 Inr shown \<Rightarrow> py_format env shown | Inl e \<Rightarrow> [])
                            @ ''...'' @ [CHR 0x27] @ ''): No program submitted.'') [k..<M]"
  define init where
    "init = \<lparr>total_score = 0 :: rat, all_justifications = [] :: string list, world = w2\<rparr>"
  have kN: "k \<le> N" and kM: "k \<le> M" by (simp_all add: k_def)
  have kpos: "k \<noteq> 0" using pn qn by (simp add: k_def N_def M_def)
  have slice: "\<And>j. j < M \<Longrightarrow> \<exists>shown. py_slice50 (qs ! j) = Inr shown"
    using sl by (simp add: M_def)
  have "\<forall>i \<in> set [0..<k]. i < length ps \<and> i < length qs
           \<and> (\<exists>shown. py_slice50 (qs ! i) = Inr shown)"
    using kN kM slice by (auto simp: N_def M_def)
  from for_range_loop_body_sliceable [OF this] obtain st0 where
    l: "for_range (loop_body env programs parts) [0..<k] init = Inr st0"
    unfolding programs_def parts_def by blast
  from for_range_loop_body [OF l] have
    j0: "all_justifications st0 = concat (map snd outcomes)"
    and t0: "total_score st0 = sum_list (map fst outcomes)"
    and len: "length outcomes = k"
    by (simp_all add: outcomes_def init_def)
  have mt: "map (\<lambda>j. missing_part env j
                        (case py_slice50 (qs ! j) of Inr shown \<Rightarrow> shown | Inl e \<Rightarrow> JNull))
                [k..<M] = missing"
    unfolding missing_def
  proof (rule map_cong [OF refl])
    fix j assume "j \<in> set [k..<M]"
    then have "j < M" by simp
    from slice [OF this] obtain shown where "py_slice50 (qs ! j) = Inr shown" by blast
    then show "missing_part env j
                 (case py_slice50 (qs ! j) of Inr shown \<Rightarrow> shown | Inl e \<Rightarrow> JNull)
               = ''Part '' @ str_nat (j + 1) @ '' ('' @ [CHR 0x27]
                 @ (case py_slice50 (qs ! j) of
                      Inr shown \<Rightarrow> py_format env shown | Inl e \<Rightarrow> [])
                 @ ''...'' @ [CHR 0x27] @ ''): No program submitted.''"
      by (simp add: missing_part_text)
  qed
  have "\<forall>j \<in> set [k..<M]. j < length qs \<and> (\<exists>shown. py_slice50 (qs ! j) = Inr shown)"
    using slice by (simp add: M_def)
  from for_range_missing_sliceable [OF this, of env st0] have
    ms: "for_range (missing_body env parts) [k..<M] st0 =
           Inr (st0\<lparr>all_justifications := all_justifications st0 @ missing\<rparr>)"
    by (simp only: parts_def mt)
  have me: "\<not> M > k \<Longrightarrow> missing = []" by (simp add: missing_def)
  define st where "st = (if M > k
                         then st0\<lparr>all_justifications := all_justifications st0 @ missing\<rparr>
                         else st0)"
  have g: "grade_mapped env parts programs k M w2 = Inr st"
    using l ms by (simp add: grade_mapped_def init_def st_def)
  have j: "all_justifications st = concat (map snd outcomes) @ missing"
    using j0 me by (simp add: st_def)
  have t: "total_score st = sum_list (map fst outcomes)"
    using t0 by (simp add: st_def)
  have pos: "\<forall>i<k. \<exists>wk. outcomes ! i = fst (grade_pair env i (ps ! i) (qs ! i) wk)"
  proof (intro allI impI)
    fix i assume i: "i < k"
    then have "i < length (pair_outcomes env programs parts [0..<k] w2)"
      using len by (simp add: outcomes_def)
    from pair_outcomes_nth [OF this] obtain wk pc pq where
      "py_getitem programs ([0..<k] ! i) = Inr pc"
      "py_getitem parts ([0..<k] ! i) = Inr pq"
      "outcomes ! i = fst (grade_pair env ([0..<k] ! i) pc pq wk)"
      unfolding outcomes_def by blast
    with i kN kM have "outcomes ! i = fst (grade_pair env i (ps ! i) (qs ! i) wk)"
      by (simp add: programs_def parts_def N_def M_def)
    then show "\<exists>wk. outcomes ! i = fst (grade_pair env i (ps ! i) (qs ! i) wk)" ..
  qed
  have lm: "length missing = M - N" by (simp add: missing_def k_def)
  have am: "analyze_mapped env question parts programs w2
              = Inr (aggregate env question k st)"
    using g by (simp add: analyze_mapped_def programs_def parts_def N_def M_def k_def)
  have whole: "analyze_programming_submission env question ocr_code w
                 = analyze_mapped env question parts programs w2"
    using mo oc s1 s2 pn qn
    by (simp add: analyze_programming_submission_def programs_def parts_def)
  obtain summary w' where gs:
    "generate_final_summary env (all_justifications st) question (world st) = (summary, w')"
    by (metis surj_pair)
  have "aggregate env question k st
          = (\<lparr>score = sum_list (map fst outcomes) / of_nat k,
              justification = join '' | '' (concat (map snd outcomes) @ missing)
                              @ '' | Final Remark: '' @ summary\<rparr>, w')"
    using gs kpos by (simp add: aggregate_def j t)
  with whole am have res: "\<exists>summary w'.
             analyze_programming_submission env question ocr_code w =
               Inr (\<lparr>score = sum_list (map fst outcomes) / of_nat k,
                      justification = join '' | '' (concat (map snd outcomes) @ missing)
                                      @ '' | Final Remark: '' @ summary\<rparr>, w')"
    by auto
  have tk: "grade_mapped env parts (JArray (take M ps)) k M w2 =
          grade_mapped env parts (JArray ps) k M w2"
    by (rule grade_mapped_take) (rule kM)
  have "min (length (take M ps)) M = k" by (simp add: k_def N_def min.commute)
  then have dr: "analyze_mapped env question parts (JArray (take M ps)) w2
                   = analyze_mapped env question parts programs w2"
    using tk am g
    by (simp add: analyze_mapped_def programs_def parts_def M_def del: length_take)
  from len pos lm res whole dr show ?thesis
    unfolding Let_def N_def [symmetric] M_def [symmetric] programs_def [symmetric]
      parts_def [symmetric] k_def [symmetric] outcomes_def [symmetric] missing_def [symmetric]
    by blast
qed

theorem positional_mapping_witness:
  "(let N = length [JStr ''p1'', JStr ''p2'', JStr ''p3''];
        M = length [JStr ''a'', JStr ''b'', JStr ''c'', JStr ''d''];
        outcomes = pair_outcomes demo_env (JArray [JStr ''p1'', JStr ''p2'', JStr ''p3''])
                     (JArray [JStr ''a'', JStr ''b'', JStr ''c'', JStr ''d''])
                     [0..<min N M] static_pairs_script;
        missing = map (\<lambda>j. ''Part '' @ str_nat (j + 1) @ '' ('' @ [CHR 0x27]
                            @ (case py_slice50 ([JStr ''a'', JStr ''b'', JStr ''c'', JStr ''d''] ! j) of
                                 Inr shown \<Rightarrow> py_format demo_env shown | Inl e \<Rightarrow> [])
                            @ ''...'' @ [CHR 0x27] @ ''): No program submitted.'')
                      [min N M..<M]
    in length outcomes = min N M
       \<and> (\<forall>k<min N M. \<exists>wk. outcomes ! k =
              fst (grade_pair demo_env k ([JStr ''p1'', JStr ''p2'', JStr ''p3''] ! k)
                     ([JStr ''a'', JStr ''b'', JStr ''c'', JStr ''d''] ! k) wk))
       \<and> length missing = M - N
       \<and> (\<exists>summary w'.
             analyze_programming_submission demo_env ''Q'' ''code'' static_script =
               Inr (\<lparr>score = sum_list (map fst outcomes) / of_nat (min N M),
                      justification = join '' | '' (concat (map snd outcomes) @ missing)
                                      @ '' | Final Remark: '' @ summary\<rparr>, w'))
       \<and> analyze_programming_submission demo_env ''Q'' ''code'' static_script
           = analyze_mapped demo_env ''Q'' (JArray [JStr ''a'', JStr ''b'', JStr ''c'', JStr ''d''])
               (JArray [JStr ''p1'', JStr ''p2'', JStr ''p3'']) static_pairs_script
       \<and> analyze_mapped demo_env ''Q'' (JArray [JStr ''a'', JStr ''b'', JStr ''c'', JStr ''d''])
             (JArray (take M [JStr ''p1'', JStr ''p2'', JStr ''p3''])) static_pairs_script
           = analyze_mapped demo_env ''Q'' (JArray [JStr ''a'', JStr ''b'', JStr ''c'', JStr ''d''])
               (JArray [JStr ''p1'', JStr ''p2'', JStr ''p3'']) static_pairs_script)
   \<and> pair_outcomes demo_env (JArray [JStr ''p1'', JStr ''p2'', JStr ''p3''])
        (JArray [JStr ''a'', JStr ''b'', JStr ''c'', JStr ''d'']) [0..<3] static_pairs_script
       = [(1, [''P1: correct'']), (1 / 2, [''P2: partly'']), (0, [''P3: wrong''])]
   \<and> analyze_programming_submission demo_env ''Q'' ''code'' static_script
       = Inr (\<lparr>score = 1 / 2,
               justification = ''P1: correct | P2: partly | P3: wrong | Part 4 ('d...'): No program submitted. | Final Remark: Good work.''\<rparr>,
              ([], [], []))
   \<and> analyze_mapped demo_env ''Q'' (JArray [JStr ''a'', JStr ''b''])
        (JArray [JStr ''p1'', JStr ''p2'', JStr ''p3''])
        ([Inr ''Python'', Inr ''print(1)'', Inr ''{\"score\": 1, \"justification\": \"correct\"}'',
          Inr ''Python'', Inr ''print(2)'', Inr ''{\"score\": 0.5, \"justification\": \"partly\"}'',
          Inr ''Good work.''], [], [])
       = Inr (\<lparr>score = 3 / 4,
               justification = ''P1: correct | P2: partly | Final Remark: Good work.''\<rparr>,
              ([], [], []))"
proof -
  have m: "model_ok demo_env" by code_simp
  have o: "''code'' \<noteq> []" by simp
  have s1: "split_question_into_parts demo_env ''Q'' static_script
             = (JArray [JStr ''a'', JStr ''b'', JStr ''c'', JStr ''d''],
                (tl (fst static_script), [], []))"
    by code_simp
  have s2: "split_programs demo_env ''code'' (tl (fst static_script), [], [])
             = (JArray [JStr ''p1'', JStr ''p2'', JStr ''p3''], static_pairs_script)"
    by code_simp
  have p: "[JStr ''p1'', JStr ''p2'', JStr ''p3''] \<noteq> []" by simp
  have q: "[JStr ''a'', JStr ''b'', JStr ''c'', JStr ''d''] \<noteq> []" by simp
  have sl: "\<forall>q \<in> set [JStr ''a'', JStr ''b'', JStr ''c'', JStr ''d''].
              \<exists>shown. py_slice50 q = Inr shown"
    by simp
  have e1: "pair_outcomes demo_env (JArray [JStr ''p1'', JStr ''p2'', JStr ''p3''])
        (JArray [JStr ''a'', JStr ''b'', JStr ''c'', JStr ''d'']) [0..<3] static_pairs_script
       = [(1, [''P1: correct'']), (1 / 2, [''P2: partly'']), (0, [''P3: wrong''])]"
    by code_simp
  have e2: "analyze_programming_submission demo_env ''Q'' ''code'' static_script
       = Inr (\<lparr>score = 1 / 2,
               justification = ''P1: correct | P2: partly | P3: wrong | Part 4 ('d...'): No program submitted. | Final Remark: Good work.''\<rparr>,
              ([], [], []))"
    by code_simp
  have e3: "analyze_mapped demo_env ''Q'' (JArray [JStr ''a'', JStr ''b''])
        (JArray [JStr ''p1'', JStr ''p2'', JStr ''p3''])
        ([Inr ''Python'', Inr ''print(1)'', Inr ''{\"score\": 1, \"justification\": \"correct\"}'',
          Inr ''Python'', Inr ''print(2)'', Inr ''{\"score\": 0.5, \"justification\": \"partly\"}'',
          Inr ''Good work.''], [], [])
       = Inr (\<lparr>score = 3 / 4,
               justification = ''P1: correct | P2: partly | Final Remark: Good work.''\<rparr>,
              ([], [], []))"
    by code_simp
  show ?thesis
    by (rule conjI [OF positional_mapping [OF m o s1 s2 p q sl] conjI [OF e1 conjI [OF e2 e3]]])
qed

subsection \<open>The range of the scores\<close>

lemma run_cases_bound:
  "run_cases env code language cases k w = (Inr p, w') \<Longrightarrow> p \<le> k + length cases"
proof (induction cases arbitrary: k w)
  case Nil
  then show ?case by simp
next
  case (Cons tc rest)
  from Cons.prems obtain k1 w1 where
    r: "run_cases env code language rest k1 w1 = (Inr p, w')" and k1: "k1 \<le> k + 1"
    by (auto split: sum.splits option.splits prod.splits run_result.splits if_splits)
  from Cons.IH [OF r] k1 show ?case by simp
qed

lemma py_iter_len: "py_iter v = Inr cases \<Longrightarrow> py_len v = Inr n \<Longrightarrow> length cases = n"
  by (cases v) auto

lemma run_code_in_docker_bound:
  "run_code_in_docker env code language test_cases w = (Inr p, w') \<Longrightarrow>
   py_len test_cases = Inr n \<Longrightarrow> p \<le> n"
proof -
  assume a: "run_code_in_docker env code language test_cases w = (Inr p, w')"
    and n: "py_len test_cases = Inr n"
  from a obtain cases w1 where i: "py_iter test_cases = Inr cases"
    and r: "run_cases env code (lower (strip language)) cases 0 w1 = (Inr p, w')"
    by (auto simp: run_code_in_docker_def split: prod.splits bool.splits sum.splits)
  from run_cases_bound [OF r] py_iter_len [OF i n] show ?thesis by simp
qed

lemma ratio_range:
  "p \<le> n \<Longrightarrow> 0 \<le> (of_nat p :: rat) / of_nat n \<and> (of_nat p :: rat) / of_nat n \<le> 1"
  by (cases "n = 0") (simp_all add: divide_le_eq)

text \<open>The dynamic branch needs no assumption: its score is 0 or a pass ratio.\<close>

lemma grade_dynamic_range:
  "grade_dynamic env i part_question language fixed_code w = ((sc, js), w') \<Longrightarrow>
     \<exists>r. sc = JNum r \<and> 0 \<le> r \<and> r \<le> 1"
proof -
  assume a: "grade_dynamic env i part_question language fixed_code w = ((sc, js), w')"
  show ?thesis
  proof (cases "sc = JNum 0")
    case True
    then show ?thesis by simp
  next
    case False
    with a obtain test_cases w2 w3 p n where
      r: "run_code_in_docker env fixed_code language test_cases w2 = (Inr p, w3)"
      and n: "py_len test_cases = Inr n"
      and s: "sc = JNum (if truthy test_cases then of_nat p / of_nat n else 0)"
      unfolding grade_dynamic_def Let_def
      by (auto split: prod.splits sum.splits if_splits)
    from run_code_in_docker_bound [OF r n] ratio_range s show ?thesis by auto
  qed
qed

lemma grade_static_range:
  "static_scores_in_range env \<Longrightarrow>
   grade_static env i part_question language fixed_code w = ((sc, js), w') \<Longrightarrow>
   as_number sc = Some r \<Longrightarrow> 0 \<le> r \<and> r \<le> 1"
proof -
  assume h: "static_scores_in_range env"
    and a: "grade_static env i part_question language fixed_code w = ((sc, js), w')"
    and n: "as_number sc = Some r"
  show ?thesis
  proof (cases "sc = JNum 0")
    case True
    with n show ?thesis by simp
  next
    case False
    with a obtain reply w1 result where
      g: "generate_content env
            (EvaluatePrompt language (py_format env part_question) fixed_code) w
          = (Inr reply, w1)"
      and l: "json_loads env (clean_json reply) = Inr result"
      and s: "py_get result ''score'' (JNum 0) = Inr sc"
      unfolding grade_static_def
      by (auto split: prod.splits sum.splits)
    from h g l s n show ?thesis unfolding static_scores_in_range_def by blast
  qed
qed

lemma grade_pair_range:
  "static_scores_in_range env \<Longrightarrow>
   grade_pair env i program_code part_question w = ((r, js), w') \<Longrightarrow> 0 \<le> r \<and> r \<le> 1"
proof -
  assume h: "static_scores_in_range env"
    and a: "grade_pair env i program_code part_question w = ((r, js), w')"
  have d: "\<And>language fixed_code w2 sc js2 w3.
             grade_dynamic env i part_question language fixed_code w2 = ((sc, js2), w3) \<Longrightarrow>
             as_number sc = Some r \<Longrightarrow> 0 \<le> r \<and> r \<le> 1"
    using grade_dynamic_range by fastforce
  note s = grade_static_range [OF h]
  from a show ?thesis
    unfolding grade_pair_def
    by (auto split: prod.splits sum.splits if_splits option.splits dest: d s)
qed

lemma pair_outcomes_range:
  "static_scores_in_range env \<Longrightarrow>
     \<forall>oc \<in> set (pair_outcomes env programs parts is w). 0 \<le> fst oc \<and> fst oc \<le> 1"
proof (induction "is" arbitrary: w)
  case Nil
  then show ?case by simp
next
  case (Cons i "is")
  show ?case
  proof (cases "py_getitem programs i")
    case (Inl e)
    then show ?thesis by simp
  next
    case pc: (Inr program_code)
    show ?thesis
    proof (cases "py_getitem parts i")
      case (Inl e)
      then show ?thesis using pc by simp
    next
      case pq: (Inr part_question)
      obtain r js w1 where g: "grade_pair env i program_code part_question w = ((r, js), w1)"
        by (metis surj_pair)
      from grade_pair_range [OF Cons.prems g] Cons.IH [OF Cons.prems, of w1]
      show ?thesis using pc pq g by simp
    qed
  qed
qed

lemma sum_list_unit_range:
  "\<forall>x \<in> set xs. 0 \<le> x \<and> x \<le> (1 :: rat) \<Longrightarrow>
     0 \<le> sum_list xs \<and> sum_list xs \<le> of_nat (length xs)"
proof (induction xs)
  case Nil
  then show ?case by simp
next
  case (Cons x xs)
  then have "0 \<le> x" "x \<le> 1" "0 \<le> sum_list xs" "sum_list xs \<le> of_nat (length xs)"
    by simp_all
  then show ?case by simp
qed

lemma mean_unit_range:
  "\<forall>x \<in> set xs. 0 \<le> x \<and> x \<le> (1 :: rat) \<Longrightarrow>
     0 \<le> sum_list xs / of_nat (length xs) \<and> sum_list xs / of_nat (length xs) \<le> 1"
proof -
  assume a: "\<forall>x \<in> set xs. 0 \<le> x \<and> x \<le> (1 :: rat)"
  from sum_list_unit_range [OF a] show ?thesis
    by (cases "xs = []") (simp_all add: divide_le_eq)
qed

lemma grade_static_cases:
  "grade_static env i part_question language fixed_code w = ((sc, js), w') \<Longrightarrow>
     sc = JNum 0 \<or>
     (\<exists>reply result.
        generate_content env
          (EvaluatePrompt language (py_format env part_question) fixed_code) w = (Inr reply, w')
        \<and> json_loads env (clean_json reply) = Inr result
        \<and> py_get result ''score'' (JNum 0) = Inr sc)"
  unfolding grade_static_def
  by (auto split: prod.splits sum.splits)

lemma grade_pair_cases:
  "grade_pair env i program_code part_question w = ((r, js), w') \<Longrightarrow>
     (0 \<le> r \<and> r \<le> 1) \<or>
     (\<exists>language fixed_code w2 reply result sc.
        \<not> requires_input fixed_code
        \<and> generate_content env
            (EvaluatePrompt language (py_format env part_question) fixed_code) w2
          = (Inr reply, w')
        \<and> json_loads env (clean_json reply) = Inr result
        \<and> py_get result ''score'' (JNum 0) = Inr sc
        \<and> as_number sc = Some r)"
proof -
  assume a: "grade_pair env i program_code part_question w = ((r, js), w')"
  show ?thesis
  proof (cases "0 \<le> r \<and> r \<le> 1")
    case True
    then show ?thesis by simp
  next
    case False
    then have r0: "r \<noteq> 0" by auto
    from a r0 obtain language w1 fixed_code w2 sc js2 where
      f: "fix_code env (py_format env program_code) language w1 = (Inr fixed_code, w2)"
      and g: "(if requires_input fixed_code
               then grade_dynamic env i part_question language fixed_code w2
               else grade_static env i part_question language fixed_code w2) = ((sc, js2), w')"
      and n: "as_number sc = Some r"
      unfolding grade_pair_def
      by (auto split: prod.splits sum.splits if_splits option.splits)
    show ?thesis
    proof (cases "requires_input fixed_code")
      case True
      with g have "grade_dynamic env i part_question language fixed_code w2 = ((sc, js2), w')"
        by simp
      from grade_dynamic_range [OF this] n False show ?thesis by auto
    next
      case ri: False
      with g have s: "grade_static env i part_question language fixed_code w2 = ((sc, js2), w')"
        by simp
      from grade_static_cases [OF s] show ?thesis
      proof
        assume "sc = JNum 0"
        with n r0 show ?thesis by simp
      next
        assume "\<exists>reply result.
                  generate_content env
                    (EvaluatePrompt language (py_format env part_question) fixed_code) w2
                  = (Inr reply, w')
                  \<and> json_loads env (clean_json reply) = Inr result
                  \<and> py_get result ''score'' (JNum 0) = Inr sc"
        then obtain reply result where
          "generate_content env
             (EvaluatePrompt language (py_format env part_question) fixed_code) w2
           = (Inr reply, w')"
          "json_loads env (clean_json reply) = Inr result"
          "py_get result ''score'' (JNum 0) = Inr sc"
          by blast
        with n ri show ?thesis by blast
      qed
    qed
  qed
qed

lemma demo_env_in_range: "static_scores_in_range demo_env"
  unfolding static_scores_in_range_def demo_env_def scripted_def demo_table_def
  by (auto split: option.splits if_splits)

text \<open>
  Claim C4 fails as stated: the static branch adds the judgment's score as it is. With
  a judgment of score 2 for the only program, the submission's score is 2.
\<close>

theorem score_above_one_counterexample:
  "analyze_programming_submission overrated_env ''Q'' ''print(1)'' overrated_script
     = Inr (\<lparr>score = 2, justification = ''P1: superb | Final Remark: Fine.''\<rparr>, ([], [], []))
   \<and> \<not> score \<lparr>score = 2, justification = ''P1: superb | Final Remark: Fine.''\<rparr> \<le> 1"
proof -
  have "analyze_programming_submission overrated_env ''Q'' ''print(1)'' overrated_script
     = Inr (\<lparr>score = 2, justification = ''P1: superb | Final Remark: Fine.''\<rparr>, ([], [], []))"
    by code_simp
  then show ?thesis by simp
qed

text \<open>
  Claim C4, amended. The dynamic branch gives 0 or the ratio of passed test cases, a
  number between 0 and 1. A pair that is skipped (no supported language) or that fails
  (language detection or code fixing raises; the static judgment's score is not a
  number, or is an integer too large for a float) adds exactly 0. So what a pair adds
  lies between 0 and 1 unless it is the numeric score of a parsed judgment of the static
  branch, which is added as it is. Provided every such score lies between 0 and 1, so do
  what each pair adds and the score of every outcome that
  \<open>analyze_programming_submission\<close> returns.
\<close>

theorem scores_in_unit_interval:
  "(\<exists>r. fst (fst (grade_dynamic env i part_question language fixed_code ws)) = JNum r
         \<and> 0 \<le> r \<and> r \<le> 1)
   \<and> (let r = fst (fst (grade_pair env i program_code part_question ws))
      in (0 \<le> r \<and> r \<le> 1)
         \<or> (\<exists>language fixed_code wb wc reply result sc.
               \<not> requires_input fixed_code
               \<and> generate_content env
                   (EvaluatePrompt language (py_format env part_question) fixed_code) wb
                 = (Inr reply, wc)
               \<and> json_loads env (clean_json reply) = Inr result
               \<and> py_get result ''score'' (JNum 0) = Inr sc
               \<and> as_number sc = Some r))
   \<and> (detect_language env (py_format env program_code) ws = (Inl e, wa) \<longrightarrow>
        grade_pair env i program_code part_question ws
          = ((0, [label i @ '': Analysis failed.'']), wa))
   \<and> (detect_language env (py_format env program_code) ws = (Inr ''unsupported'', wa) \<longrightarrow>
        grade_pair env i program_code part_question ws
          = ((0, [label i @ '': Could not detect a supported language, skipped.'']), wa))
   \<and> (detect_language env (py_format env program_code) ws = (Inr language, wa) \<longrightarrow>
        language \<noteq> ''unsupported'' \<longrightarrow>
        fix_code env (py_format env program_code) language wa = (Inl e, wb) \<longrightarrow>
        grade_pair env i program_code part_question ws
          = ((0, [label i @ '': Analysis failed.'']), wb))
   \<and> (detect_language env (py_format env program_code) ws = (Inr language, wa) \<longrightarrow>
        language \<noteq> ''unsupported'' \<longrightarrow>
        fix_code env (py_format env program_code) language wa = (Inr fixed_code, wb) \<longrightarrow>
        \<not> requires_input fixed_code \<longrightarrow>
        grade_static env i part_question language fixed_code wb = ((sc, js), wc) \<longrightarrow>
        as_number sc = None \<longrightarrow>
        grade_pair env i program_code part_question ws
          = ((0, js @ [label i @ '': Analysis failed.'']), wc))
   \<and> (2 ^ 1024 - 2 ^ 970 \<le> \<bar>n\<bar> \<longrightarrow> as_number (JInt n) = None)
   \<and> (static_scores_in_range env \<longrightarrow>
        (0 \<le> fst (fst (grade_pair env i program_code part_question ws))
         \<and> fst (fst (grade_pair env i program_code part_question ws)) \<le> 1)
        \<and> (analyze_programming_submission env question ocr_code w = Inr (out, w') \<longrightarrow>
             0 \<le> score out \<and> score out \<le> 1))"
proof -
  obtain sc0 js0 wd where
    d: "grade_dynamic env i part_question language fixed_code ws = ((sc0, js0), wd)"
    by (metis surj_pair)
  from grade_dynamic_range [OF d] d have dyn:
    "\<exists>r. fst (fst (grade_dynamic env i part_question language fixed_code ws)) = JNum r
         \<and> 0 \<le> r \<and> r \<le> 1"
    by simp
  obtain r0 jsp wp where
    p: "grade_pair env i program_code part_question ws = ((r0, jsp), wp)"
    by (metis surj_pair)
  from grade_pair_cases [OF p] p have any:
    "let r = fst (fst (grade_pair env i program_code part_question ws))
      in (0 \<le> r \<and> r \<le> 1)
         \<or> (\<exists>language fixed_code wb wc reply result sc.
               \<not> requires_input fixed_code
               \<and> generate_content env
                   (EvaluatePrompt language (py_format env part_question) fixed_code) wb
                 = (Inr reply, wc)
               \<and> json_loads env (clean_json reply) = Inr result
               \<and> py_get result ''score'' (JNum 0) = Inr sc
               \<and> as_number sc = Some r)"
    unfolding Let_def by simp blast
  have f1: "detect_language env (py_format env program_code) ws = (Inl e, wa) \<longrightarrow>
        grade_pair env i program_code part_question ws
          = ((0, [label i @ '': Analysis failed.'']), wa)"
    by (simp add: grade_pair_def)
  have f2: "detect_language env (py_format env program_code) ws = (Inr ''unsupported'', wa) \<longrightarrow>
        grade_pair env i program_code part_question ws
          = ((0, [label i @ '': Could not detect a supported language, skipped.'']), wa)"
    by (simp add: grade_pair_def)
  have f3: "detect_language env (py_format env program_code) ws = (Inr language, wa) \<longrightarrow>
        language \<noteq> ''unsupported'' \<longrightarrow>
        fix_code env (py_format env program_code) language wa = (Inl e, wb) \<longrightarrow>
        grade_pair env i program_code part_question ws
          = ((0, [label i @ '': Analysis failed.'']), wb)"
    by (simp add: grade_pair_def)
  have f4: "detect_language env (py_format env program_code) ws = (Inr language, wa) \<longrightarrow>
        language \<noteq> ''unsupported'' \<longrightarrow>
        fix_code env (py_format env program_code) language wa = (Inr fixed_code, wb) \<longrightarrow>
        \<not> requires_input fixed_code \<longrightarrow>
        grade_static env i part_question language fixed_code wb = ((sc, js), wc) \<longrightarrow>
        as_number sc = None \<longrightarrow>
        grade_pair env i program_code part_question ws
          = ((0, js @ [label i @ '': Analysis failed.'']), wc)"
    by (simp add: grade_pair_def)
  have f5: "2 ^ 1024 - 2 ^ 970 \<le> \<bar>n\<bar> \<longrightarrow> as_number (JInt n) = None"
    by (simp add: float_limit_def)
  have cond: "static_scores_in_range env \<longrightarrow>
        (0 \<le> fst (fst (grade_pair env i program_code part_question ws))
         \<and> fst (fst (grade_pair env i program_code part_question ws)) \<le> 1)
        \<and> (analyze_programming_submission env question ocr_code w = Inr (out, w') \<longrightarrow>
             0 \<le> score out \<and> score out \<le> 1)"
  proof
    assume h: "static_scores_in_range env"
    have pair: "0 \<le> fst (fst (grade_pair env i program_code part_question ws))
         \<and> fst (fst (grade_pair env i program_code part_question ws)) \<le> 1"
      using grade_pair_range [OF h p] p by simp
    have whole: "analyze_programming_submission env question ocr_code w = Inr (out, w') \<longrightarrow>
                 0 \<le> score out \<and> score out \<le> 1"
    proof
      assume a: "analyze_programming_submission env question ocr_code w = Inr (out, w')"
      obtain parts0 wb where s1: "split_question_into_parts env question w = (parts0, wb)"
        by (metis surj_pair)
      obtain programs wc where s2: "split_programs env ocr_code wb = (programs, wc)"
        by (metis surj_pair)
      define parts where "parts = (if \<not> truthy parts0 then JArray [JStr question] else parts0)"
      note c = analyze_programming_submission_cases [OF a s1 s2]
      show "0 \<le> score out \<and> score out \<le> 1"
      proof (cases "model_ok env \<and> ocr_code \<noteq> [] \<and> truthy programs")
        case False
        with c show ?thesis by simp
      next
        case True
        with c have "analyze_mapped env question parts programs wc = Inr (out, w')"
          by (simp add: parts_def)
        from analyze_mapped_score [OF this] obtain n m where
          l: "length (pair_outcomes env programs parts [0..<min n m] wc) = min n m"
          and s: "score out =
             (if min n m \<noteq> 0
              then sum_list (map fst (pair_outcomes env programs parts [0..<min n m] wc))
                   / of_nat (min n m)
              else 0)"
          by blast
        define xs where "xs = map fst (pair_outcomes env programs parts [0..<min n m] wc)"
        have x: "\<forall>x \<in> set xs. 0 \<le> x \<and> x \<le> 1"
          using pair_outcomes_range [OF h] by (auto simp: xs_def)
        have "length xs = min n m" using l by (simp add: xs_def)
        with mean_unit_range [OF x] s show ?thesis
          by (auto simp: xs_def [symmetric])
      qed
    qed
    from pair whole show "(0 \<le> fst (fst (grade_pair env i program_code part_question ws))
         \<and> fst (fst (grade_pair env i program_code part_question ws)) \<le> 1)
        \<and> (analyze_programming_submission env question ocr_code w = Inr (out, w') \<longrightarrow>
             0 \<le> score out \<and> score out \<le> 1)" by blast
  qed
  show ?thesis
    by (rule conjI [OF dyn conjI [OF any conjI [OF f1 conjI [OF f2
          conjI [OF f3 conjI [OF f4 conjI [OF f5 cond]]]]]]])
qed

theorem scores_in_unit_interval_witness:
  \<open>(\<exists>r. fst (fst (grade_dynamic demo_env 0 (JStr ''square'') ''python'' ''n = int(input())''
                        passing_script)) = JNum r \<and> 0 \<le> r \<and> r \<le> 1)
   \<and> fst (fst (grade_dynamic demo_env 0 (JStr ''square'') ''python'' ''n = int(input())''
                  passing_script)) = JNum 1
   \<and> grade_pair demo_env 0 (JStr ''p1'') (JStr ''a'') ([Inl (External ''quota'')], [], [])
       = ((0, [''P1: Analysis failed.'']), ([], [], []))
   \<and> grade_pair demo_env 0 (JStr ''p1'') (JStr ''a'') ([Inr ''Ruby''], [], [])
       = ((0, [''P1: Could not detect a supported language, skipped.'']), ([], [], []))
   \<and> grade_pair demo_env 0 (JStr ''p1'') (JStr ''a'')
        ([Inr ''Python'', Inl (External ''quota'')], [], [])
       = ((0, [''P1: Analysis failed.'']), ([], [], []))
   \<and> grade_pair odd_scores_env 0 (JStr ''p1'') (JStr ''a'')
        ([Inr ''Python'', Inr ''print(1)'',
          Inr ''{"score": "high", "justification": "good"}''], [], [])
       = ((0, [''P1: good'', ''P1: Analysis failed.'']), ([], [], []))
   \<and> grade_pair odd_scores_env 0 (JStr ''p1'') (JStr ''a'')
        ([Inr ''Python'', Inr ''print(1)'',
          Inr (''{"score": 1'' @ replicate 400 (CHR ''0'') @ ''}'')], [], [])
       = ((0, [''P1: Gemini evaluation completed.''] @ [label 0 @ '': Analysis failed.'']),
          ([], [], []))
   \<and> label 0 @ '': Analysis failed.'' = ''P1: Analysis failed.''
   \<and> as_number (JInt (10 ^ 400)) = None
   \<and> static_scores_in_range demo_env
   \<and> 0 \<le> fst (fst (grade_pair demo_env 1 (JStr ''p2'') (JStr ''b'')
                      ([Inr ''Python'', Inr ''print(2)'',
                        Inr ''{"score": 0.5, "justification": "partly"}''], [], [])))
   \<and> fst (fst (grade_pair demo_env 1 (JStr ''p2'') (JStr ''b'')
                  ([Inr ''Python'', Inr ''print(2)'',
                    Inr ''{"score": 0.5, "justification": "partly"}''], [], []))) \<le> 1
   \<and> fst (fst (grade_pair demo_env 1 (JStr ''p2'') (JStr ''b'')
                  ([Inr ''Python'', Inr ''print(2)'',
                    Inr ''{"score": 0.5, "justification": "partly"}''], [], []))) = 1 / 2
   \<and> 0 \<le> score \<lparr>score = 1 / 2,
                  justification = ''P1: correct | P2: partly | P3: wrong | Part 4 ('d...'): No program submitted. | Final Remark: Good work.''\<rparr>
   \<and> score \<lparr>score = 1 / 2,
             justification = ''P1: correct | P2: partly | P3: wrong | Part 4 ('d...'): No program submitted. | Final Remark: Good work.''\<rparr> \<le> 1\<close>
proof -
  have l: "label 0 = ''P1''" by code_simp
  have dyn: "\<exists>r. fst (fst (grade_dynamic demo_env 0 (JStr ''square'') ''python''
                             ''n = int(input())'' passing_script)) = JNum r
                  \<and> 0 \<le> r \<and> r \<le> 1"
    using scores_in_unit_interval
            [where env = demo_env and i = 0 and part_question = "JStr ''square''"
               and language = "''python''" and fixed_code = "''n = int(input())''"
               and ws = passing_script]
    by (rule conjunct1)
  have dyn1: "fst (fst (grade_dynamic demo_env 0 (JStr ''square'') ''python''
                          ''n = int(input())'' passing_script)) = JNum 1"
    by code_simp
  have d1: "detect_language demo_env (py_format demo_env (JStr ''p1''))
              ([Inl (External ''quota'')], [], []) = (Inl (External ''quota''), ([], [], []))"
    by code_simp
  have f1: "grade_pair demo_env 0 (JStr ''p1'') (JStr ''a'') ([Inl (External ''quota'')], [], [])
             = ((0, [''P1: Analysis failed.'']), ([], [], []))"
    using scores_in_unit_interval
            [where env = demo_env and i = 0 and program_code = "JStr ''p1''"
               and part_question = "JStr ''a''" and ws = "([Inl (External ''quota'')], [], [])"
               and e = "External ''quota''" and wa = "([], [], [])"] d1
    by (simp add: l)
  have d2: "detect_language demo_env (py_format demo_env (JStr ''p1'')) ([Inr ''Ruby''], [], [])
              = (Inr ''unsupported'', ([], [], []))"
    by code_simp
  have f2: "grade_pair demo_env 0 (JStr ''p1'') (JStr ''a'') ([Inr ''Ruby''], [], [])
             = ((0, [''P1: Could not detect a supported language, skipped.'']), ([], [], []))"
    using scores_in_unit_interval
            [where env = demo_env and i = 0 and program_code = "JStr ''p1''"
               and part_question = "JStr ''a''" and ws = "([Inr ''Ruby''], [], [])"
               and wa = "([], [], [])"] d2
    by (simp add: l)
  have d3: "detect_language demo_env (py_format demo_env (JStr ''p1''))
              ([Inr ''Python'', Inl (External ''quota'')], [], [])
              = (Inr ''python'', ([Inl (External ''quota'')], [], []))"
    by code_simp
  have x3: "fix_code demo_env (py_format demo_env (JStr ''p1'')) ''python''
              ([Inl (External ''quota'')], [], []) = (Inl (External ''quota''), ([], [], []))"
    by code_simp
  have f3: "grade_pair demo_env 0 (JStr ''p1'') (JStr ''a'')
              ([Inr ''Python'', Inl (External ''quota'')], [], [])
             = ((0, [''P1: Analysis failed.'']), ([], [], []))"
    using scores_in_unit_interval
            [where env = demo_env and i = 0 and program_code = "JStr ''p1''"
               and part_question = "JStr ''a''"
               and ws = "([Inr ''Python'', Inl (External ''quota'')], [], [])"
               and language = "''python''" and wa = "([Inl (External ''quota'')], [], [])"
               and e = "External ''quota''" and wb = "([], [], [])"] d3 x3
    by (simp add: l)
  have d4: \<open>detect_language odd_scores_env (py_format odd_scores_env (JStr ''p1''))
              ([Inr ''Python'', Inr ''print(1)'',
                Inr ''{"score": "high", "justification": "good"}''], [], [])
              = (Inr ''python'',
                 ([Inr ''print(1)'', Inr ''{"score": "high", "justification": "good"}''], [], []))\<close>
    by code_simp
  have x4: \<open>fix_code odd_scores_env (py_format odd_scores_env (JStr ''p1'')) ''python''
              ([Inr ''print(1)'', Inr ''{"score": "high", "justification": "good"}''], [], [])
              = (Inr ''print(1)'',
                 ([Inr ''{"score": "high", "justification": "good"}''], [], []))\<close>
    by code_simp
  have r4: "\<not> requires_input ''print(1)''" by code_simp
  have s4: \<open>grade_static odd_scores_env 0 (JStr ''a'') ''python'' ''print(1)''
              ([Inr ''{"score": "high", "justification": "good"}''], [], [])
              = ((JStr ''high'', [''P1: good'']), ([], [], []))\<close>
    by code_simp
  have n4: "as_number (JStr ''high'') = None" by simp
  have f4: \<open>grade_pair odd_scores_env 0 (JStr ''p1'') (JStr ''a'')
              ([Inr ''Python'', Inr ''print(1)'',
                Inr ''{"score": "high", "justification": "good"}''], [], [])
             = ((0, [''P1: good'', ''P1: Analysis failed.'']), ([], [], []))\<close>
    using scores_in_unit_interval
            [where env = odd_scores_env and i = 0 and program_code = "JStr ''p1''"
               and part_question = "JStr ''a''"
               and ws = \<open>([Inr ''Python'', Inr ''print(1)'',
                            Inr ''{"score": "high", "justification": "good"}''], [], [])\<close>
               and language = "''python''"
               and wa = \<open>([Inr ''print(1)'',
                            Inr ''{"score": "high", "justification": "good"}''], [], [])\<close>
               and fixed_code = "''print(1)''"
               and wb = \<open>([Inr ''{"score": "high", "justification": "good"}''], [], [])\<close>
               and sc = "JStr ''high''" and js = "[''P1: good'']" and wc = "([], [], [])"]
          d4 x4 r4 s4 n4
    by (simp add: l)
  have n5: "as_number (JInt (10 ^ 400)) = None"
    using scores_in_unit_interval [where n = "10 ^ 400" and env = demo_env]
    by simp
  have d5: \<open>\<And>rest. detect_language odd_scores_env (py_format odd_scores_env (JStr ''p1''))
                     (Inr ''Python'' # rest, [], []) = (Inr ''python'', (rest, [], []))\<close>
    by code_simp
  have x5: \<open>\<And>rest. fix_code odd_scores_env (py_format odd_scores_env (JStr ''p1'')) ''python''
                     (Inr ''print(1)'' # rest, [], []) = (Inr ''print(1)'', (rest, [], []))\<close>
    by code_simp
  have u5: "''python'' \<noteq> ''unsupported''" by simp
  have s5: \<open>grade_static odd_scores_env 0 (JStr ''a'') ''python'' ''print(1)''
              ([Inr (''{"score": 1'' @ replicate 400 (CHR ''0'') @ ''}'')], [], [])
              = ((JInt (10 ^ 400), [''P1: Gemini evaluation completed.'']), ([], [], []))\<close>
    by code_simp
  have f5: \<open>grade_pair odd_scores_env 0 (JStr ''p1'') (JStr ''a'')
        ([Inr ''Python'', Inr ''print(1)'',
          Inr (''{"score": 1'' @ replicate 400 (CHR ''0'') @ ''}'')], [], [])
       = ((0, [''P1: Gemini evaluation completed.''] @ [label 0 @ '': Analysis failed.'']),
          ([], [], []))\<close>
    by (rule scores_in_unit_interval
               [THEN conjunct2, THEN conjunct2, THEN conjunct2, THEN conjunct2, THEN conjunct2,
                THEN conjunct1, rule_format, OF d5 u5 x5 r4 s5 n5])
  have a: "analyze_programming_submission demo_env ''Q'' ''code'' static_script
             = Inr (\<lparr>score = 1 / 2,
                     justification = ''P1: correct | P2: partly | P3: wrong | Part 4 ('d...'): No program submitted. | Final Remark: Good work.''\<rparr>,
                    ([], [], []))"
    by code_simp
  note t = scores_in_unit_interval
            [where env = demo_env and i = 1 and program_code = "JStr ''p2''"
               and part_question = "JStr ''b''"
               and ws = \<open>([Inr ''Python'', Inr ''print(2)'',
                            Inr ''{"score": 0.5, "justification": "partly"}''], [], [])\<close>
               and question = "''Q''" and ocr_code = "''code''" and w = static_script
               and out = "\<lparr>score = 1 / 2,
                     justification = ''P1: correct | P2: partly | P3: wrong | Part 4 ('d...'): No program submitted. | Final Remark: Good work.''\<rparr>"
               and w' = "([], [], [])"]
  have c: \<open>(0 \<le> fst (fst (grade_pair demo_env 1 (JStr ''p2'') (JStr ''b'')
                      ([Inr ''Python'', Inr ''print(2)'',
                        Inr ''{"score": 0.5, "justification": "partly"}''], [], [])))
            \<and> fst (fst (grade_pair demo_env 1 (JStr ''p2'') (JStr ''b'')
                  ([Inr ''Python'', Inr ''print(2)'',
                    Inr ''{"score": 0.5, "justification": "partly"}''], [], []))) \<le> 1)
          \<and> 0 \<le> score \<lparr>score = 1 / 2,
                  justification = ''P1: correct | P2: partly | P3: wrong | Part 4 ('d...'): No program submitted. | Final Remark: Good work.''\<rparr>
          \<and> score \<lparr>score = 1 / 2,
             justification = ''P1: correct | P2: partly | P3: wrong | Part 4 ('d...'): No program submitted. | Final Remark: Good work.''\<rparr> \<le> 1\<close>
    using t demo_env_in_range a by blast
  have g: \<open>fst (fst (grade_pair demo_env 1 (JStr ''p2'') (JStr ''b'')
                  ([Inr ''Python'', Inr ''print(2)'',
                    Inr ''{"score": 0.5, "justification": "partly"}''], [], []))) = 1 / 2\<close>
    by code_simp
  have l5: "label 0 @ '': Analysis failed.'' = ''P1: Analysis failed.''" by code_simp
  from c have c1: \<open>0 \<le> fst (fst (grade_pair demo_env 1 (JStr ''p2'') (JStr ''b'')
                      ([Inr ''Python'', Inr ''print(2)'',
                        Inr ''{"score": 0.5, "justification": "partly"}''], [], [])))\<close>
    and c2: \<open>fst (fst (grade_pair demo_env 1 (JStr ''p2'') (JStr ''b'')
                  ([Inr ''Python'', Inr ''print(2)'',
                    Inr ''{"score": 0.5, "justification": "partly"}''], [], []))) \<le> 1\<close>
    and c3: \<open>0 \<le> score \<lparr>score = 1 / 2,
                  justification = ''P1: correct | P2: partly | P3: wrong | Part 4 ('d...'): No program submitted. | Final Remark: Good work.''\<rparr>\<close>
    and c4: \<open>score \<lparr>score = 1 / 2,
             justification = ''P1: correct | P2: partly | P3: wrong | Part 4 ('d...'): No program submitted. | Final Remark: Good work.''\<rparr> \<le> 1\<close>
    by blast+
  from dyn dyn1 f1 f2 f3 f4 f5 l5 n5 demo_env_in_range c1 c2 g c3 c4 show ?thesis
    by (intro conjI)
qed

subsection \<open>The intent check\<close>

lemma grade_dynamic_mismatch:
  "generate_test_cases env (py_format env part_question) language w = (test_cases, w1) \<Longrightarrow>
   truthy test_cases \<Longrightarrow>
   generate_content env (ProblemCheckPrompt (py_format env part_question) fixed_code) w1
     = (Inr reply, w2) \<Longrightarrow>
   json_loads env (clean_json reply) = Inr (JObject analysis) \<Longrightarrow>
   \<not> truthy (case map_of analysis ''solves_intended_problem'' of Some v \<Rightarrow> v | None \<Rightarrow> JNull) \<Longrightarrow>
   grade_dynamic env i part_question language fixed_code w =
     ((JNum 0,
       [mismatch_justification env i
          (case map_of analysis ''actual_problem_solved'' of
             Some v \<Rightarrow> v | None \<Rightarrow> JStr ''an unknown problem'')
          (case map_of analysis ''mismatch_explanation'' of
             Some v \<Rightarrow> v | None \<Rightarrow> JStr ''No explanation provided.'')]), w2)"
  by (simp add: grade_dynamic_def)

text \<open>
  Claim C3. On the dynamic path, when the parsed intent check has no true
  \<open>solves_intended_problem\<close>, the pair's score is 0 and its only justification says that
  the code does not solve the assigned problem, names the problem it does solve and
  gives the explanation of the mismatch. The container engine is not consulted: the
  result is the same whatever \<open>docker.from_env\<close> and \<open>containers.run\<close> would do, and the
  world is the one the intent check left.
\<close>

theorem intent_mismatch_scores_zero:
  "generate_test_cases env (py_format env part_question) language w = (test_cases, w1) \<Longrightarrow>
   truthy test_cases \<Longrightarrow>
   generate_content env (ProblemCheckPrompt (py_format env part_question) fixed_code) w1
     = (Inr reply, w2) \<Longrightarrow>
   json_loads env (clean_json reply) = Inr (JObject analysis) \<Longrightarrow>
   \<not> truthy (case map_of analysis ''solves_intended_problem'' of Some v \<Rightarrow> v | None \<Rightarrow> JNull) \<Longrightarrow>
   actual_problem_solved =
     (case map_of analysis ''actual_problem_solved'' of
        Some v \<Rightarrow> v | None \<Rightarrow> JStr ''an unknown problem'') \<Longrightarrow>
   mismatch_explanation =
     (case map_of analysis ''mismatch_explanation'' of
        Some v \<Rightarrow> v | None \<Rightarrow> JStr ''No explanation provided.'') \<Longrightarrow>
   justification_text =
     label i @ '': This code does not solve the assigned problem. ''
     @ ''It appears to be a valid solution for: '' @ apostrophe
     @ py_format env actual_problem_solved @ apostrophe @ ''. ''
     @ ''Reason: '' @ py_format env mismatch_explanation \<Longrightarrow>
     grade_dynamic env i part_question language fixed_code w
       = ((JNum 0, [justification_text]), w2)
     \<and> grade_dynamic (env\<lparr>docker_from_env := from_env, containers_run := run\<rparr>)
          i part_question language fixed_code w
       = ((JNum 0, [justification_text]), w2)
     \<and> (detect_language env (py_format env program_code) w0 = (Inr language, w00) \<longrightarrow>
        language \<noteq> ''unsupported'' \<longrightarrow>
        fix_code env (py_format env program_code) language w00 = (Inr fixed_code, w) \<longrightarrow>
        requires_input fixed_code \<longrightarrow>
        grade_pair env i program_code part_question w0 = ((0, [justification_text]), w2))"
proof -
  assume t: "generate_test_cases env (py_format env part_question) language w = (test_cases, w1)"
    and tt: "truthy test_cases"
    and g: "generate_content env (ProblemCheckPrompt (py_format env part_question) fixed_code) w1
              = (Inr reply, w2)"
    and l: "json_loads env (clean_json reply) = Inr (JObject analysis)"
    and s: "\<not> truthy (case map_of analysis ''solves_intended_problem'' of
                          Some v \<Rightarrow> v | None \<Rightarrow> JNull)"
    and a: "actual_problem_solved =
              (case map_of analysis ''actual_problem_solved'' of
                 Some v \<Rightarrow> v | None \<Rightarrow> JStr ''an unknown problem'')"
    and m: "mismatch_explanation =
              (case map_of analysis ''mismatch_explanation'' of
                 Some v \<Rightarrow> v | None \<Rightarrow> JStr ''No explanation provided.'')"
    and j: "justification_text =
              label i @ '': This code does not solve the assigned problem. ''
              @ ''It appears to be a valid solution for: '' @ apostrophe
              @ py_format env actual_problem_solved @ apostrophe @ ''. ''
              @ ''Reason: '' @ py_format env mismatch_explanation"
  have jt: "justification_text = mismatch_justification env i actual_problem_solved mismatch_explanation"
    by (simp add: j mismatch_justification_def)
  have d: "grade_dynamic env i part_question language fixed_code w
             = ((JNum 0, [justification_text]), w2)"
    using grade_dynamic_mismatch [OF t tt g l s] by (simp add: jt a m)
  define env' where "env' = env\<lparr>docker_from_env := from_env, containers_run := run\<rparr>"
  have f: "py_format env' = py_format env"
    by (rule ext) (simp add: env'_def py_format_def split: json.splits)
  have gc: "generate_content env' = generate_content env"
    and jl: "json_loads env' = json_loads env"
    by (simp_all add: env'_def)
  have t': "generate_test_cases env' (py_format env' part_question) language w = (test_cases, w1)"
    using t unfolding generate_test_cases_def f gc jl .
  have g': "generate_content env' (ProblemCheckPrompt (py_format env' part_question) fixed_code) w1
              = (Inr reply, w2)"
    using g unfolding f gc .
  have l': "json_loads env' (clean_json reply) = Inr (JObject analysis)"
    using l unfolding jl .
  have "mismatch_justification env' i actual_problem_solved mismatch_explanation
          = justification_text"
    by (simp add: jt mismatch_justification_def f)
  then have d': "grade_dynamic env' i part_question language fixed_code w
             = ((JNum 0, [justification_text]), w2)"
    using grade_dynamic_mismatch [OF t' tt g' l' s] by (simp add: a m)
  have p: "detect_language env (py_format env program_code) w0 = (Inr language, w00) \<longrightarrow>
        language \<noteq> ''unsupported'' \<longrightarrow>
        fix_code env (py_format env program_code) language w00 = (Inr fixed_code, w) \<longrightarrow>
        requires_input fixed_code \<longrightarrow>
        grade_pair env i program_code part_question w0 = ((0, [justification_text]), w2)"
    using d by (simp add: grade_pair_def)
  from d d' p show ?thesis unfolding env'_def by blast
qed

theorem intent_mismatch_scores_zero_witness:
  "grade_dynamic demo_env 0 (JStr ''Square the input'') ''python'' ''x = input()'' mismatch_script
     = ((JNum 0,
         [''P1: This code does not solve the assigned problem. It appears to be a valid solution for: 'doubling a number'. Reason: the question asks for the square'']),
        ([], [True, True], [Stdout ''49'', Stdout ''49'']))
   \<and> grade_pair demo_env 0 (JStr ''x = input ( )'') (JStr ''Square the input'')
        ([Inr ''Python'', Inr ''x = input()''] @ fst mismatch_script,
         [True, True], [Stdout ''49'', Stdout ''49''])
     = ((0,
         [''P1: This code does not solve the assigned problem. It appears to be a valid solution for: 'doubling a number'. Reason: the question asks for the square'']),
        ([], [True, True], [Stdout ''49'', Stdout ''49'']))"
proof -
  let ?after_tests = "(tl (fst mismatch_script), [True, True], [Stdout ''49'', Stdout ''49''])"
  let ?after_check = "([] :: (exn + string) list, [True, True], [Stdout ''49'', Stdout ''49''])"
  let ?analysis = "[(''solves_intended_problem'', JBool False),
                    (''actual_problem_solved'', JStr ''doubling a number''),
                    (''mismatch_explanation'', JStr ''the question asks for the square'')]"
  let ?start_a = "([Inr ''Python'', Inr ''x = input()''] @ fst mismatch_script,
              [True, True], [Stdout ''49'', Stdout ''49''])"
  let ?start_b = "([Inr ''x = input()''] @ fst mismatch_script,
               [True, True], [Stdout ''49'', Stdout ''49''])"
  have t: "generate_test_cases demo_env (py_format demo_env (JStr ''Square the input'')) ''python''
             mismatch_script
           = (JArray [JObject [(''input'', JStr ''7''), (''expected_output'', JStr ''49'')]], ?after_tests)"
    by code_simp
  have tt: "truthy (JArray [JObject [(''input'', JStr ''7''), (''expected_output'', JStr ''49'')]])"
    by simp
  have g: "generate_content demo_env
             (ProblemCheckPrompt (py_format demo_env (JStr ''Square the input'')) ''x = input()'') ?after_tests
           = (Inr ''{\"solves_intended_problem\": false, \"actual_problem_solved\": \"doubling a number\", \"mismatch_explanation\": \"the question asks for the square\"}'', ?after_check)"
    by code_simp
  have l: "json_loads demo_env (clean_json ''{\"solves_intended_problem\": false, \"actual_problem_solved\": \"doubling a number\", \"mismatch_explanation\": \"the question asks for the square\"}'')
           = Inr (JObject ?analysis)"
    by code_simp
  have s: "\<not> truthy (case map_of ?analysis ''solves_intended_problem'' of
                          Some v \<Rightarrow> v | None \<Rightarrow> JNull)"
    by simp
  have a: "JStr ''doubling a number'' =
             (case map_of ?analysis ''actual_problem_solved'' of
                Some v \<Rightarrow> v | None \<Rightarrow> JStr ''an unknown problem'')"
    by simp
  have m: "JStr ''the question asks for the square'' =
             (case map_of ?analysis ''mismatch_explanation'' of
                Some v \<Rightarrow> v | None \<Rightarrow> JStr ''No explanation provided.'')"
    by simp
  have j: "''P1: This code does not solve the assigned problem. It appears to be a valid solution for: 'doubling a number'. Reason: the question asks for the square''
           = label 0 @ '': This code does not solve the assigned problem. ''
             @ ''It appears to be a valid solution for: '' @ apostrophe
             @ py_format demo_env (JStr ''doubling a number'') @ apostrophe @ ''. ''
             @ ''Reason: '' @ py_format demo_env (JStr ''the question asks for the square'')"
    by code_simp
  have d: "detect_language demo_env (py_format demo_env (JStr ''x = input ( )'')) ?start_a
           = (Inr ''python'', ?start_b)"
    by code_simp
  have n: "''python'' \<noteq> ''unsupported''" by simp
  have f: "fix_code demo_env (py_format demo_env (JStr ''x = input ( )'')) ''python'' ?start_b
           = (Inr ''x = input()'', mismatch_script)"
    by code_simp
  have r: "requires_input ''x = input()''" by code_simp
  note c = intent_mismatch_scores_zero [OF t tt g l s a m j,
             where program_code = "JStr ''x = input ( )''" and ?w0.0 = ?start_a and ?w00.0 = ?start_b]
  show ?thesis
    by (rule conjI [OF c [THEN conjunct1]
                       c [THEN conjunct2, THEN conjunct2, THEN mp, THEN mp, THEN mp, THEN mp,
                          OF d n f r]])
qed

subsection \<open>Splitting the submission\<close>

text \<open>
  Claim C5 fails as stated for \<open>_split_programs\<close>: a reply that is valid JSON but has no
  "programs" entry gives the empty list, not the whole text; so does a blank text,
  whatever the reply would be.
\<close>

theorem split_programs_counterexample:
  "fst (split_programs demo_env ''print(1)'' ([Inr ''{}''], [], [])) = JArray []
   \<and> fst (split_programs demo_env ''print(1)'' ([Inr ''{}''], [], []))
       \<noteq> JArray [JStr ''print(1)'']
   \<and> fst (split_programs demo_env ''  '' ([Inr ''not json''], [], [])) = JArray []"
proof -
  have 1: "fst (split_programs demo_env ''print(1)'' ([Inr ''{}''], [], [])) = JArray []"
    by code_simp
  have 2: "fst (split_programs demo_env ''  '' ([Inr ''not json''], [], [])) = JArray []"
    by code_simp
  from 1 2 show ?thesis by simp
qed

text \<open>
  Claim C5, amended. With the model configured and a text that is not blank, both
  functions return the whole input as a one-element list when the call to the model
  raises, when the reply is not JSON, and when the JSON value is not an object. When it
  is an object without the expected key, \<open>_split_question_into_parts\<close> returns the whole
  question and \<open>_split_programs\<close> returns the empty list. Without a model or for a blank
  text the model is not called: \<open>_split_question_into_parts\<close> returns the whole question,
  \<open>_split_programs\<close> the empty list.
\<close>

theorem split_fallbacks:
  "(model_ok env \<and> strip question \<noteq> [] \<longrightarrow>
      (generate_content env (SplitPartsPrompt question) w = (Inl e, w') \<longrightarrow>
         split_question_into_parts env question w = (JArray [JStr question], w'))
      \<and> (generate_content env (SplitPartsPrompt question) w = (Inr reply, w') \<longrightarrow>
           (json_loads env (clean_json reply) = Inl e' \<longrightarrow>
              split_question_into_parts env question w = (JArray [JStr question], w'))
           \<and> (json_loads env (clean_json reply) = Inr v \<longrightarrow>
                (\<forall>kvs. v = JObject kvs \<longrightarrow> map_of kvs ''parts'' = None) \<longrightarrow>
                split_question_into_parts env question w = (JArray [JStr question], w'))))
   \<and> (\<not> model_ok env \<or> strip question = [] \<longrightarrow>
        split_question_into_parts env question w = (JArray [JStr question], w))
   \<and> (model_ok env \<and> strip ocr_text \<noteq> [] \<longrightarrow>
      (generate_content env (SplitProgramsPrompt ocr_text) w = (Inl e, w') \<longrightarrow>
         split_programs env ocr_text w = (JArray [JStr ocr_text], w'))
      \<and> (generate_content env (SplitProgramsPrompt ocr_text) w = (Inr reply, w') \<longrightarrow>
           (json_loads env (clean_json reply) = Inl e' \<longrightarrow>
              split_programs env ocr_text w = (JArray [JStr ocr_text], w'))
           \<and> (json_loads env (clean_json reply) = Inr v \<longrightarrow>
                (\<forall>kvs. v \<noteq> JObject kvs) \<longrightarrow>
                split_programs env ocr_text w = (JArray [JStr ocr_text], w'))
           \<and> (json_loads env (clean_json reply) = Inr (JObject kvs) \<longrightarrow>
                map_of kvs ''programs'' = None \<longrightarrow>
                split_programs env ocr_text w = (JArray [], w'))))
   \<and> (\<not> model_ok env \<or> strip ocr_text = [] \<longrightarrow>
        split_programs env ocr_text w = (JArray [], w))"
proof -
  have get_parts: "\<forall>kvs. v = JObject kvs \<longrightarrow> map_of kvs ''parts'' = None \<Longrightarrow>
      (case py_get v ''parts'' (JArray [JStr question]) of
         Inl e \<Rightarrow> (JArray [JStr question], w') | Inr r \<Rightarrow> (r, w'))
      = (JArray [JStr question], w')"
    by (cases v) simp_all
  have get_programs: "\<forall>kvs. v \<noteq> JObject kvs \<Longrightarrow>
      (case py_get v ''programs'' (JArray []) of
         Inl e \<Rightarrow> (JArray [JStr ocr_text], w') | Inr r \<Rightarrow> (r, w'))
      = (JArray [JStr ocr_text], w')"
    by (cases v) simp_all
  show ?thesis
    using get_parts get_programs
    by (simp add: split_question_into_parts_def split_programs_def)
qed

theorem split_fallbacks_witness:
  "split_question_into_parts demo_env ''Q'' ([Inl (External ''timeout'')], [], [])
     = (JArray [JStr ''Q''], ([], [], []))
   \<and> split_question_into_parts demo_env ''Q'' ([Inr ''not json''], [], [])
     = (JArray [JStr ''Q''], ([], [], []))
   \<and> split_question_into_parts demo_env ''Q'' ([Inr ''{}''], [], [])
     = (JArray [JStr ''Q''], ([], [], []))
   \<and> split_programs demo_env ''print(1)'' ([Inl (External ''timeout'')], [], [])
     = (JArray [JStr ''print(1)''], ([], [], []))
   \<and> split_programs demo_env ''print(1)'' ([Inr ''not json''], [], [])
     = (JArray [JStr ''print(1)''], ([], [], []))
   \<and> split_programs demo_env ''print(1)'' ([Inr ''{}''], [], [])
     = (JArray [], ([], [], []))"
proof -
  let ?done = "([] :: (exn + string) list, [] :: bool list, [] :: run_result list)"
  have m: "model_ok demo_env" by code_simp
  have sq: "strip ''Q'' \<noteq> []" by code_simp
  have sp: "strip ''print(1)'' \<noteq> []" by code_simp
  have q1: "generate_content demo_env (SplitPartsPrompt ''Q'') ([Inl (External ''timeout'')], [], [])
              = (Inl (External ''timeout''), ?done)" by code_simp
  have q2: "generate_content demo_env (SplitPartsPrompt ''Q'') ([Inr ''not json''], [], [])
              = (Inr ''not json'', ?done)" by code_simp
  have q3: "generate_content demo_env (SplitPartsPrompt ''Q'') ([Inr ''{}''], [], [])
              = (Inr ''{}'', ?done)" by code_simp
  have p1: "generate_content demo_env (SplitProgramsPrompt ''print(1)'')
              ([Inl (External ''timeout'')], [], [])
              = (Inl (External ''timeout''), ?done)" by code_simp
  have p2: "generate_content demo_env (SplitProgramsPrompt ''print(1)'') ([Inr ''not json''], [], [])
              = (Inr ''not json'', ?done)" by code_simp
  have p3: "generate_content demo_env (SplitProgramsPrompt ''print(1)'') ([Inr ''{}''], [], [])
              = (Inr ''{}'', ?done)" by code_simp
  have l2: "json_loads demo_env (clean_json ''not json'') = Inl (External ''JSONDecodeError'')"
    by code_simp
  have l3: "json_loads demo_env (clean_json ''{}'') = Inr (JObject [])" by code_simp
  have k: "\<forall>kvs. JObject [] = JObject kvs \<longrightarrow> map_of kvs ''parts'' = None" by simp
  have k': "map_of ([] :: (string \<times> json) list) ''programs'' = None" by simp
  have a1: "split_question_into_parts demo_env ''Q'' ([Inl (External ''timeout'')], [], [])
              = (JArray [JStr ''Q''], ?done)"
    using split_fallbacks [of demo_env "''Q''" "([Inl (External ''timeout'')], [], [])"
            "External ''timeout''" ?done] m sq q1
    by blast
  have a2: "split_question_into_parts demo_env ''Q'' ([Inr ''not json''], [], [])
              = (JArray [JStr ''Q''], ?done)"
    using split_fallbacks [of demo_env "''Q''" "([Inr ''not json''], [], [])" _ ?done
            "''not json''" "External ''JSONDecodeError''"] m sq q2 l2
    by blast
  have a3: "split_question_into_parts demo_env ''Q'' ([Inr ''{}''], [], [])
              = (JArray [JStr ''Q''], ?done)"
    using split_fallbacks [of demo_env "''Q''" "([Inr ''{}''], [], [])" _ ?done
            "''{}''" _ "JObject []"] m sq q3 l3 k
    by blast
  have b1: "split_programs demo_env ''print(1)'' ([Inl (External ''timeout'')], [], [])
              = (JArray [JStr ''print(1)''], ?done)"
    using split_fallbacks [of demo_env _ "([Inl (External ''timeout'')], [], [])"
            "External ''timeout''" ?done _ _ _ "''print(1)''"] m sp p1
    by blast
  have b2: "split_programs demo_env ''print(1)'' ([Inr ''not json''], [], [])
              = (JArray [JStr ''print(1)''], ?done)"
    using split_fallbacks [of demo_env _ "([Inr ''not json''], [], [])" _ ?done
            "''not json''" "External ''JSONDecodeError''" _ "''print(1)''"] m sp p2 l2
    by blast
  have b3: "split_programs demo_env ''print(1)'' ([Inr ''{}''], [], [])
              = (JArray [], ?done)"
    using split_fallbacks [of demo_env _ "([Inr ''{}''], [], [])" _ ?done
            "''{}''" _ _ "''print(1)''" "[]"] m sp p3 l3 k'
    by blast
  from a1 a2 a3 b1 b2 b3 show ?thesis by blast
qed

subsection \<open>The container engine\<close>



lemma py_iter_Inr_len: "py_iter v = Inr cases \<Longrightarrow> py_len v = Inr (length cases)"
  by (cases v) auto

lemma passed_is_not_failed:
  "passed_justification env i p n part_question rs \<noteq> verification_failed i"
  by (simp add: passed_justification_def verification_failed_def)





subsection \<open>Unsupported languages\<close>






end
